theory Spec2Isabelle
  imports Main "HOL-Library.Word"
begin

section \<open>RequestProbe: parsers, validator and request tester\<close>

text \<open>
  A shallow embedding of the Go packages \<^verbatim>\<open>backend/core/validator\<close>,
  \<^verbatim>\<open>backend/core/encoding\<close>, \<^verbatim>\<open>backend/core/parser\<close>,
  \<^verbatim>\<open>backend/core/tester\<close> and \<^verbatim>\<open>backend/core/manager\<close>.

  Conventions.
  \<^item> A Go \<^verbatim>\<open>string\<close> is a byte sequence and is modelled as a HOL \<open>string\<close>;
    \<^verbatim>\<open>len(s)\<close> is \<open>length s\<close>.
  \<^item> A Go \<^verbatim>\<open>map[string]T\<close> is a partial function \<open>string \<rightharpoonup> T\<close>. A
    \<^verbatim>\<open>for k, v := range m\<close> loop visits the keys in an order that the language leaves
    open; the order of each such loop is an explicit list argument of the model.
  \<^item> A function returning \<^verbatim>\<open>(T, error)\<close> returns \<open>error + T\<close>, a function
    returning only \<^verbatim>\<open>error\<close> returns \<open>error option\<close> (\<open>None\<close> is \<^verbatim>\<open>nil\<close>).
  \<^item> Functions of the Go standard library and of \<^verbatim>\<open>golang.org/x\<close> are not code of
    the repository. The small, fully specified ones (package \<^verbatim>\<open>strings\<close>,
    \<^verbatim>\<open>strconv\<close>, the two regular expressions, \<^verbatim>\<open>http.Header\<close>) are written out
    after their documentation; the others (the expression parser \<^verbatim>\<open>go/parser\<close>, the
    text decoders, the Unicode case mappings, \<^verbatim>\<open>net/url\<close>, \<^verbatim>\<open>encoding/json\<close>,
    the network) are arguments of the model.
\<close>

subsection \<open>Package strings\<close>

definition strings_HasPrefix :: "string \<Rightarrow> string \<Rightarrow> bool" where
  "strings_HasPrefix s p = (take (length p) s = p)"

fun strings_Contains :: "string \<Rightarrow> string \<Rightarrow> bool" where
  "strings_Contains [] substr = (substr = [])"
| "strings_Contains (c # s) substr =
     (strings_HasPrefix (c # s) substr \<or> strings_Contains s substr)"

text \<open>
  \<^verbatim>\<open>strings.Index\<close> returns \<open>-1\<close> when the substring is absent; the model returns
  \<open>None\<close>.
\<close>

fun strings_Index :: "string \<Rightarrow> string \<Rightarrow> nat option" where
  "strings_Index [] substr = (if substr = [] then Some 0 else None)"
| "strings_Index (c # s) substr =
     (if strings_HasPrefix (c # s) substr then Some 0
      else map_option Suc (strings_Index s substr))"

lemma strings_Index_le:
  "strings_Index s substr = Some i \<Longrightarrow> i + length substr \<le> length s"
proof (induction s arbitrary: i)
  case Nil
  then show ?case by (simp split: if_splits)
next
  case (Cons c s)
  show ?case
  proof (cases "strings_HasPrefix (c # s) substr")
    case True
    then have "length (take (length substr) (c # s)) = length substr"
      by (simp add: strings_HasPrefix_def)
    then have "length substr \<le> length (c # s)"
      by simp
    with True Cons.prems show ?thesis by simp
  next
    case False
    with Cons.prems obtain j where "strings_Index s substr = Some j" "i = Suc j"
      by auto
    with Cons.IH show ?thesis by simp
  qed
qed

text \<open>
  \<^verbatim>\<open>strings.Split\<close> and \<^verbatim>\<open>strings.ReplaceAll\<close>, for a non-empty separator (the
  code only passes literals); both scan from the left and continue behind each match.
\<close>

function strings_Split :: "string \<Rightarrow> string \<Rightarrow> string list" where
  "strings_Split s sep =
     (if sep = [] then [s]
      else case strings_Index s sep of
             None \<Rightarrow> [s]
           | Some i \<Rightarrow> take i s # strings_Split (drop (i + length sep) s) sep)"
  by pat_completeness auto
termination
proof (relation "measure (\<lambda>(s, sep). length s)")
  show "wf (measure (\<lambda>(s, sep). length s))" by simp
next
  fix s sep :: string and i
  assume a: "sep \<noteq> []" and b: "strings_Index s sep = Some i"
  from a have "1 \<le> length sep" by (cases sep) simp_all
  moreover from b have "i + length sep \<le> length s" by (rule strings_Index_le)
  ultimately show "((drop (i + length sep) s, sep), (s, sep)) \<in> measure (\<lambda>(s, sep). length s)"
    by simp
qed

declare strings_Split.simps [simp del]

function strings_ReplaceAll :: "string \<Rightarrow> string \<Rightarrow> string \<Rightarrow> string" where
  "strings_ReplaceAll s old new =
     (if old = [] then s
      else case strings_Index s old of
             None \<Rightarrow> s
           | Some i \<Rightarrow> take i s @ new @ strings_ReplaceAll (drop (i + length old) s) old new)"
  by pat_completeness auto
termination
proof (relation "measure (\<lambda>(s, old, new). length s)")
  show "wf (measure (\<lambda>(s, old, new). length s))" by simp
next
  fix s old new :: string and i
  assume a: "old \<noteq> []" and b: "strings_Index s old = Some i"
  from a have "1 \<le> length old" by (cases old) simp_all
  moreover from b have "i + length old \<le> length s" by (rule strings_Index_le)
  ultimately show "((drop (i + length old) s, old, new), (s, old, new))
               \<in> measure (\<lambda>(s, old, new). length s)"
    by simp
qed

declare strings_ReplaceAll.simps [simp del]

text \<open>
  \<open>unicode_IsSpace\<close> is the white space of \<^verbatim>\<open>strings.TrimSpace\<close> and
  \<^verbatim>\<open>strings.Fields\<close>, \<open>regexp_space\<close> the class \<^verbatim>\<open>\s\<close> of package
  \<^verbatim>\<open>regexp\<close>. Both are given for ASCII: the model agrees with Go on every string
  whose non-ASCII runes are not white space (Go also trims U+0085, U+00A0 and the
  Unicode space separators, which are several bytes long in UTF-8).
\<close>

definition regexp_space :: "char \<Rightarrow> bool" where
  "regexp_space c = (c = CHR 0x09 \<or> c = CHR 0x0A \<or> c = CHR 0x0C \<or> c = CHR 0x0D \<or> c = CHR '' '')"

definition unicode_IsSpace :: "char \<Rightarrow> bool" where
  "unicode_IsSpace c = (c = CHR 0x09 \<or> c = CHR 0x0A \<or> c = CHR 0x0B \<or> c = CHR 0x0C
                        \<or> c = CHR 0x0D \<or> c = CHR '' '')"

definition strings_TrimSpace :: "string \<Rightarrow> string" where
  "strings_TrimSpace s = rev (dropWhile unicode_IsSpace (rev (dropWhile unicode_IsSpace s)))"

text \<open>
  \<^verbatim>\<open>strings.Fields\<close>: the maximal runs of characters that are not white space.
\<close>

fun strings_Fields_loop :: "string \<Rightarrow> string \<Rightarrow> string list" where
  "strings_Fields_loop [] field = (if field = [] then [] else [field])"
| "strings_Fields_loop (c # s) field =
     (if unicode_IsSpace c
      then (if field = [] then strings_Fields_loop s [] else field # strings_Fields_loop s [])
      else strings_Fields_loop s (field @ [c]))"

definition strings_Fields :: "string \<Rightarrow> string list" where
  "strings_Fields s = strings_Fields_loop s []"

fun strings_Join :: "string list \<Rightarrow> string \<Rightarrow> string" where
  "strings_Join [] sep = []"
| "strings_Join [x] sep = x"
| "strings_Join (x # y # rest) sep = x @ sep @ strings_Join (y # rest) sep"

definition strings_HasSuffix :: "string \<Rightarrow> string \<Rightarrow> bool" where
  "strings_HasSuffix s suffix =
     (length suffix \<le> length s \<and> drop (length s - length suffix) s = suffix)"

definition strings_TrimPrefix :: "string \<Rightarrow> string \<Rightarrow> string" where
  "strings_TrimPrefix s prefix =
     (if strings_HasPrefix s prefix then drop (length prefix) s else s)"

definition strings_Trim :: "string \<Rightarrow> string \<Rightarrow> string" where
  "strings_Trim s cutset =
     rev (dropWhile (\<lambda>c. c \<in> set cutset) (rev (dropWhile (\<lambda>c. c \<in> set cutset) s)))"

text \<open>
  \<^verbatim>\<open>strings.ToLower\<close> and \<^verbatim>\<open>strings.ToUpper\<close> map every Unicode letter and are
  arguments of the model. \<open>ascii_ToLower\<close> and \<open>ascii_ToUpper\<close> are what they compute
  on ASCII strings; the concrete inputs below are ASCII.
\<close>

definition ascii_ToLower :: "string \<Rightarrow> string" where
  "ascii_ToLower s =
     map (\<lambda>c. let n = (of_char c :: nat) in if 65 \<le> n \<and> n \<le> 90 then char_of (n + 32) else c) s"

definition ascii_ToUpper :: "string \<Rightarrow> string" where
  "ascii_ToUpper s =
     map (\<lambda>c. let n = (of_char c :: nat) in if 97 \<le> n \<and> n \<le> 122 then char_of (n - 32) else c) s"

subsection \<open>Package strconv\<close>

text \<open>
  \<^verbatim>\<open>strconv.Atoi\<close> accepts an optional sign and decimal digits, and fails outside
  the 64-bit range; \<^verbatim>\<open>strconv.Itoa\<close> prints the decimal digits.
\<close>

definition digit_value :: "char \<Rightarrow> nat option" where
  "digit_value c =
     (let n = (of_char c :: nat) in if 48 \<le> n \<and> n \<le> 57 then Some (n - 48) else None)"

fun decimal_value :: "string \<Rightarrow> nat \<Rightarrow> nat option" where
  "decimal_value [] acc = Some acc"
| "decimal_value (c # s) acc =
     (case digit_value c of None \<Rightarrow> None | Some d \<Rightarrow> decimal_value s (acc * 10 + d))"

definition strconv_Atoi :: "string \<Rightarrow> int option" where
  "strconv_Atoi s =
     (let neg = (s \<noteq> [] \<and> hd s = CHR ''-'');
          digits = (if s \<noteq> [] \<and> (hd s = CHR ''-'' \<or> hd s = CHR ''+'') then tl s else s)
      in if digits = [] then None
         else case decimal_value digits 0 of
                None \<Rightarrow> None
              | Some n \<Rightarrow>
                  let v = (if neg then - int n else int n)
                  in if - (2 ^ 63) \<le> v \<and> v \<le> 2 ^ 63 - 1 then Some v else None)"

function itoa_nat :: "nat \<Rightarrow> string" where
  "itoa_nat n = (if n < 10 then [char_of (48 + n)] else itoa_nat (n div 10) @ [char_of (48 + n mod 10)])"
  by pat_completeness auto
termination
  by (relation "measure id") auto

declare itoa_nat.simps [simp del]

definition strconv_Itoa :: "int \<Rightarrow> string" where
  "strconv_Itoa i = (if i < 0 then CHR ''-'' # itoa_nat (nat (- i)) else itoa_nat (nat i))"

subsection \<open>Errors\<close>

text \<open>
  The code builds its errors with \<^verbatim>\<open>fmt.Errorf\<close>; one constructor stands for each
  message, with the values the message is formatted from.
\<close>

datatype error =
    EmptyExpression
  | ExpressionSyntaxError string
  | DisallowedOperator string
  | DisallowedFunction string
  | DisallowedResponseMethod string
  | DisallowedMethodCall
  | DisallowedResponseField string
  | OnlyResponseFields
  | DisallowedIdentifier string
  | UnsupportedExprType string
  | UnsupportedExpressionFormat
  | EvaluationFailed error
  | NoValidationRule
  | NoMatchingEncoding string
  | ExpressionMissing
  | ExpressionWithoutResponse
  | EmptyRequest
  | InvalidRequestFormat
  | InvalidRequestLine
  | UnsupportedMethod string
  | ParseRequestLineFailed error
  | ParseQueryFailed string
  | EmptyCurlCommand
  | EmptyInput
  | UnrecognizedFormat
  | UrlNotFound
  | TransportError string
  | RetriesExhausted int "error option"

subsection \<open>models\<close>

text \<open>
  The structs of package \<^verbatim>\<open>models\<close>. Where two structs have a field of the same
  name, all but one carry a prefix. \<^verbatim>\<open>time.Duration\<close> values are integers
  (nanoseconds).
\<close>

record ParsedRequest =
  Method :: string
  URL :: string
  Headers :: "string \<rightharpoonup> string"
  Cookies :: "string \<rightharpoonup> string"
  Body :: string
  QueryParams :: "string \<rightharpoonup> string"
  ContentType :: string

record ResponseCookie =
  rc_Name :: string
  rc_Value :: string
  rc_Domain :: string
  rc_Path :: string

record ResponseData =
  StatusCode :: int
  resp_Headers :: "string \<rightharpoonup> string"
  resp_Body :: string
  resp_Cookies :: "ResponseCookie list"
  resp_URL :: string
  Duration :: int
  ContentLength :: int
  CharacterCount :: int
  RawBody :: string
  DetectedEncoding :: string

record EncodingConfig =
  enc_Enabled :: bool
  CalibrationText :: string
  SupportedEncodings :: "string list"
  enc_DetectedEncoding :: string

record TextMatchingConfig =
  tm_Enabled :: bool
  Texts :: "string list"
  MatchMode :: string
  CaseSensitive :: bool

record LengthRangeConfig =
  lr_Enabled :: bool
  MinLength :: int
  MaxLength :: int

record ValidationConfig =
  Expression :: string
  Timeout :: int
  MaxRetries :: int
  FollowRedirect :: bool
  UserAgent :: string
  TextMatching :: TextMatchingConfig
  LengthRange :: LengthRangeConfig
  UseCustomExpr :: bool
  EncodingConfig :: EncodingConfig
  PreserveUserAgent :: bool

record ResponseInfo =
  ri_StatusCode :: int
  ri_URL :: string
  ri_Headers :: "string \<rightharpoonup> string"

record SingleRequestResult =
  Success :: bool
  Error :: string
  Note :: string
  ResponseInfo :: "ResponseInfo option"

record FieldTestResult =
  Required :: bool
  Value :: string
  TestResult :: SingleRequestResult

record TestResults =
  tr_Headers :: "string \<rightharpoonup> FieldTestResult"
  tr_Cookies :: "string \<rightharpoonup> FieldTestResult"

subsection \<open>Loops over maps\<close>

text \<open>
  \<open>range_map order m body s\<close> is the loop \<^verbatim>\<open>for k, v := range m { body }\<close> started
  in state \<open>s\<close>, visiting the keys in the order \<open>order\<close>. An order that a run can
  take lists every key of the map once: \<open>visits order m\<close>.
\<close>

definition range_map ::
  "string list \<Rightarrow> (string \<rightharpoonup> 'v) \<Rightarrow> (string \<Rightarrow> 'v \<Rightarrow> 's \<Rightarrow> 's) \<Rightarrow> 's \<Rightarrow> 's" where
  "range_map order m body s =
     fold (\<lambda>k s. case m k of None \<Rightarrow> s | Some v \<Rightarrow> body k v s) order s"

definition visits :: "string list \<Rightarrow> (string \<rightharpoonup> 'v) \<Rightarrow> bool" where
  "visits order m \<longleftrightarrow> distinct order \<and> set order = dom m"

subsection \<open>validator: the static check of an expression\<close>

text \<open>
  The syntax trees of \<^verbatim>\<open>go/ast\<close>, as far as \<^verbatim>\<open>validateASTNode\<close> tells them apart:
  the seven node types it has a case for, and \<open>OtherExpr\<close> with the name of the node
  type for every other node (index, slice, star, function literal, composite literal
  and so on), which the \<^verbatim>\<open>default\<close> case rejects without looking inside. Operators
  are the strings of \<^verbatim>\<open>Op.String()\<close>.
\<close>

datatype expr =
    BinaryExpr expr string expr
  | UnaryExpr string expr
  | CallExpr expr "expr list"
  | SelectorExpr expr string
  | Ident string
  | BasicLit string
  | ParenExpr expr
  | OtherExpr string

definition allowedFunctions :: "string \<Rightarrow> bool" where
  "allowedFunctions name \<longleftrightarrow>
     name \<in> set [''len'', ''str'', ''int'', ''float'', ''bool'', ''lower'', ''upper'', ''strip'',
                  ''json'']"

definition allowedOperators :: "string \<Rightarrow> bool" where
  "allowedOperators op \<longleftrightarrow>
     op \<in> set [''=='', ''!='', ''<'', ''<='', ''>'', ''>='', ''&&'', ''||'', ''!'', ''in'']"

definition isAllowedResponseField :: "string \<Rightarrow> bool" where
  "isAllowedResponseField field \<longleftrightarrow>
     field \<in> set [''status_code'', ''text'', ''content'', ''headers'', ''cookies'', ''url'',
                   ''elapsed'', ''encoding'', ''reason'']"

definition isAllowedResponseMethod :: "string \<Rightarrow> bool" where
  "isAllowedResponseMethod method \<longleftrightarrow> method \<in> set [''json'']"

definition isBuiltinConstant :: "string \<Rightarrow> bool" where
  "isBuiltinConstant name \<longleftrightarrow> name \<in> set [''true'', ''false'', ''nil'']"

text \<open>
  \<^verbatim>\<open>validateASTNode\<close>; \<open>validateArgs\<close> is its loop over the arguments of a call.
  In the case of a call the code tests whether the called expression is an identifier,
  then whether it is a selector, and has no branch for any other called expression.
\<close>

fun validateASTNode :: "expr \<Rightarrow> error option"
  and validateArgs :: "expr list \<Rightarrow> error option" where
  "validateASTNode (BinaryExpr x op y) =
     (case validateASTNode x of
        Some err \<Rightarrow> Some err
      | None \<Rightarrow>
          (case validateASTNode y of
             Some err \<Rightarrow> Some err
           | None \<Rightarrow> if \<not> allowedOperators op then Some (DisallowedOperator op) else None))"
| "validateASTNode (UnaryExpr op x) =
     (case validateASTNode x of
        Some err \<Rightarrow> Some err
      | None \<Rightarrow> if \<not> allowedOperators op then Some (DisallowedOperator op) else None)"
| "validateASTNode (CallExpr fn args) =
     (case fn of
        Ident name \<Rightarrow>
          if \<not> allowedFunctions name then Some (DisallowedFunction name)
          else validateArgs args
      | SelectorExpr x sel \<Rightarrow>
          if x = Ident ''response'' then
            (if \<not> isAllowedResponseMethod sel then Some (DisallowedResponseMethod sel)
             else validateArgs args)
          else Some DisallowedMethodCall
      | _ \<Rightarrow> validateArgs args)"
| "validateASTNode (SelectorExpr x sel) =
     (if x = Ident ''response'' then
        (if \<not> isAllowedResponseField sel then Some (DisallowedResponseField sel) else None)
      else Some OnlyResponseFields)"
| "validateASTNode (Ident name) =
     (if name \<noteq> ''response'' \<and> \<not> isBuiltinConstant name then Some (DisallowedIdentifier name)
      else None)"
| "validateASTNode (BasicLit v) = None"
| "validateASTNode (ParenExpr x) = validateASTNode x"
| "validateASTNode (OtherExpr t) = Some (UnsupportedExprType t)"
| "validateArgs [] = None"
| "validateArgs (arg # args) =
     (case validateASTNode arg of Some err \<Rightarrow> Some err | None \<Rightarrow> validateArgs args)"

text \<open>\<open>ParseExpr\<close> is \<^verbatim>\<open>parser.ParseExpr\<close> of the Go standard library.\<close>

definition ValidateExpression :: "(string \<Rightarrow> string + expr) \<Rightarrow> string \<Rightarrow> error option" where
  "ValidateExpression ParseExpr expression =
     (if strings_TrimSpace expression = [] then Some EmptyExpression
      else case ParseExpr expression of
             Inl err \<Rightarrow> Some (ExpressionSyntaxError err)
           | Inr expr \<Rightarrow> validateASTNode expr)"

subsection \<open>validator: evaluation of an expression\<close>

text \<open>
  The values of type \<^verbatim>\<open>interface{}\<close> that the evaluator handles: integers and
  strings, the fields of the response, and what \<^verbatim>\<open>json.Unmarshal\<close> produces
  (strings, numbers \<open>'f\<close>, booleans, \<^verbatim>\<open>nil\<close>, arrays and objects).
  \<^verbatim>\<open>reflect.DeepEqual\<close> on two such values is their equality.
\<close>

datatype 'f val =
    VInt int
  | VString string
  | VBool bool
  | VNil
  | VFloat 'f
  | VArray "'f val list"
  | VObject "string \<Rightarrow> 'f val option"
  | VHeaders "string \<Rightarrow> string option"
  | VCookies "ResponseCookie list"
  | VDuration int

definition createResponseMap ::
  "(string \<Rightarrow> 'f val option) \<Rightarrow> ResponseData \<Rightarrow> (string \<rightharpoonup> 'f val)" where
  "createResponseMap json_Unmarshal response =
     (let responseMap =
            [''status_code'' \<mapsto> VInt (StatusCode response),
             ''text'' \<mapsto> VString (resp_Body response),
             ''content'' \<mapsto> VString (resp_Body response),
             ''headers'' \<mapsto> VHeaders (resp_Headers response),
             ''cookies'' \<mapsto> VCookies (resp_Cookies response),
             ''url'' \<mapsto> VString (resp_URL response),
             ''elapsed'' \<mapsto> VDuration (Duration response)]
      in if resp_Body response \<noteq> [] then
           (case json_Unmarshal (resp_Body response) of
              Some jsonData \<Rightarrow> responseMap(''json'' \<mapsto> jsonData)
            | None \<Rightarrow> responseMap)
         else responseMap)"

definition parseValue :: "string \<Rightarrow> (string \<rightharpoonup> 'f val) \<Rightarrow> error + 'f val" where
  "parseValue value responseMap =
     (let value = strings_TrimSpace value
      in case strconv_Atoi value of
           Some intVal \<Rightarrow> Inr (VInt intVal)
         | None \<Rightarrow>
             if strings_HasPrefix value [CHR 0x22] \<and> strings_HasSuffix value [CHR 0x22]
             then Inr (VString (strings_Trim value [CHR 0x22]))
             else if strings_HasPrefix value [CHR 0x27] \<and> strings_HasSuffix value [CHR 0x27]
             then Inr (VString (strings_Trim value [CHR 0x27]))
             else
               (case (if strings_HasPrefix value ''response.''
                      then responseMap (strings_TrimPrefix value ''response.'') else None) of
                  Some val \<Rightarrow> Inr val
                | None \<Rightarrow> Inr (VString value)))"

text \<open>
  \<^verbatim>\<open>evaluateSimpleExpression\<close>. The three \<^verbatim>\<open>if\<close> blocks of the code fall through
  to the next one when they do not return; \<open>equality\<close> and \<open>containment\<close> are
  \<open>None\<close> in that case.
\<close>

definition evaluateSimpleExpression ::
  "string \<Rightarrow> (string \<rightharpoonup> 'f val) \<Rightarrow> error + bool" where
  "evaluateSimpleExpression expression responseMap =
     (let expr = expression;
          expr = (case responseMap ''status_code'' of
                    Some (VInt statusCode) \<Rightarrow>
                      strings_ReplaceAll expr ''response.status_code'' (strconv_Itoa statusCode)
                  | _ \<Rightarrow> expr);
          equality =
            (if strings_Contains expr ''=='' then
               let parts = strings_Split expr ''=='' in
               if length parts = 2 then
                 let left = strings_TrimSpace (parts ! 0);
                     right = strings_TrimSpace (parts ! 1)
                 in Some (case parseValue left responseMap of
                            Inl err \<Rightarrow> Inl err
                          | Inr leftVal \<Rightarrow>
                              (case parseValue right responseMap of
                                 Inl err \<Rightarrow> Inl err
                               | Inr rightVal \<Rightarrow> Inr (leftVal = rightVal)))
               else None
             else None)
      in case equality of
           Some result \<Rightarrow> result
         | None \<Rightarrow>
             if strings_Contains expr ''<='' \<and> strings_Contains expr ''<'' then
               (case responseMap ''status_code'' of
                  Some (VInt statusCode) \<Rightarrow>
                    if statusCode \<ge> 200 \<and> statusCode < 300 then Inr True else Inr False
                | _ \<Rightarrow> Inr False)
             else
               let containment =
                     (if strings_Contains expr '' in '' then
                        let parts = strings_Split expr '' in '' in
                        if length parts = 2 then
                          let needle = strings_Trim (strings_TrimSpace (parts ! 0))
                                         [CHR 0x22, CHR 0x27];
                              haystack = strings_TrimSpace (parts ! 1)
                          in if haystack = ''response.text'' then
                               (case responseMap ''text'' of
                                  Some (VString text) \<Rightarrow> Some (strings_Contains text needle)
                                | _ \<Rightarrow> None)
                             else None
                        else None
                      else None)
               in case containment of
                    Some result \<Rightarrow> Inr result
                  | None \<Rightarrow> Inl UnsupportedExpressionFormat)"

definition EvaluateExpression ::
  "(string \<Rightarrow> string + expr) \<Rightarrow> (string \<Rightarrow> 'f val option) \<Rightarrow> string \<Rightarrow> ResponseData
     \<Rightarrow> error + bool" where
  "EvaluateExpression ParseExpr json_Unmarshal expression response =
     (case ValidateExpression ParseExpr expression of
        Some err \<Rightarrow> Inl err
      | None \<Rightarrow>
          let responseMap = createResponseMap json_Unmarshal response
          in case evaluateSimpleExpression expression responseMap of
               Inl err \<Rightarrow> Inl (EvaluationFailed err)
             | Inr result \<Rightarrow> Inr result)"

subsection \<open>validator: text matching, length range and the order of the modes\<close>

text \<open>
  The loop of \<^verbatim>\<open>checkTextMatching\<close> over \<^verbatim>\<open>config.Texts\<close>. \<open>Inl True\<close> is the
  \<^verbatim>\<open>return true\<close> inside the loop (mode \<^verbatim>\<open>any\<close>), \<open>Inr n\<close> is the value of
  \<^verbatim>\<open>matchCount\<close> when the loop ends.
\<close>

fun checkTextMatching_loop ::
  "(string \<Rightarrow> string) \<Rightarrow> TextMatchingConfig \<Rightarrow> string \<Rightarrow> string list \<Rightarrow> int \<Rightarrow> bool + int" where
  "checkTextMatching_loop ToLower config text [] matchCount = Inr matchCount"
| "checkTextMatching_loop ToLower config text (searchText # rest) matchCount =
     (if searchText = [] then checkTextMatching_loop ToLower config text rest matchCount
      else
        let checkText = (if \<not> CaseSensitive config then ToLower searchText else searchText)
        in if strings_Contains text checkText
           then (if MatchMode config = ''any'' then Inl True
                 else checkTextMatching_loop ToLower config text rest (matchCount + 1))
           else checkTextMatching_loop ToLower config text rest matchCount)"

definition checkTextMatching ::
  "(string \<Rightarrow> string) \<Rightarrow> TextMatchingConfig \<Rightarrow> string \<Rightarrow> bool" where
  "checkTextMatching ToLower config responseBody =
     (if length (Texts config) = 0 then length responseBody > 0
      else
        let text = (if \<not> CaseSensitive config then ToLower responseBody else responseBody)
        in case checkTextMatching_loop ToLower config text (Texts config) 0 of
             Inl b \<Rightarrow> b
           | Inr matchCount \<Rightarrow>
               if MatchMode config = ''all'' then matchCount = int (length (Texts config))
               else matchCount > 0)"

definition checkLengthRange :: "LengthRangeConfig \<Rightarrow> string \<Rightarrow> bool" where
  "checkLengthRange config responseBody =
     (let len = int (length responseBody)
      in if len < MinLength config then False
         else if MaxLength config > 0 \<and> len > MaxLength config then False
         else True)"

definition EvaluateConfig ::
  "(string \<Rightarrow> string + expr) \<Rightarrow> (string \<Rightarrow> 'f val option) \<Rightarrow> (string \<Rightarrow> string)
     \<Rightarrow> ValidationConfig \<Rightarrow> ResponseData \<Rightarrow> error + bool" where
  "EvaluateConfig ParseExpr json_Unmarshal ToLower config response =
     (if UseCustomExpr config \<and> Expression config \<noteq> [] then
        EvaluateExpression ParseExpr json_Unmarshal (Expression config) response
      else if StatusCode response < 200 \<or> StatusCode response \<ge> 300 then Inr False
      else if tm_Enabled (TextMatching config) then
        Inr (checkTextMatching ToLower (TextMatching config) (resp_Body response))
      else if lr_Enabled (LengthRange config) then
        Inr (checkLengthRange (LengthRange config) (resp_Body response))
      else Inl NoValidationRule)"

subsection \<open>manager and services: validation of an expression template\<close>

text \<open>
  \<^verbatim>\<open>ExpressionManager.ValidateExpression\<close>, which by its own comment does a simple
  check instead of calling the validator, and \<^verbatim>\<open>RequestService.ValidateExpression\<close>,
  which forwards to it.
\<close>

definition ExpressionManager_ValidateExpression :: "string \<Rightarrow> error option" where
  "ExpressionManager_ValidateExpression expression =
     (if expression = [] then Some ExpressionMissing
      else if \<not> strings_Contains expression ''response'' then Some ExpressionWithoutResponse
      else None)"

definition RequestService_ValidateExpression :: "string \<Rightarrow> error option" where
  "RequestService_ValidateExpression expression = ExpressionManager_ValidateExpression expression"

subsection \<open>encoding: calibration detection\<close>

text \<open>
  \<^verbatim>\<open>EncodingDetector.DetectEncoding\<close>. \<open>encodings\<close> lists the registry
  \<^verbatim>\<open>d.encodings\<close> in the order in which the \<^verbatim>\<open>range\<close> loop visits it, and
  \<open>decodeBytes\<close> is the decoder of \<^verbatim>\<open>golang.org/x/text\<close>. Next to the result the
  model returns the names of the codecs that were tried, in order.
\<close>

fun DetectEncoding_loop ::
  "('enc \<Rightarrow> string \<Rightarrow> 'err + string) \<Rightarrow> string \<Rightarrow> string \<Rightarrow> (string \<times> 'enc) list
     \<Rightarrow> string list \<Rightarrow> (error + string) \<times> string list" where
  "DetectEncoding_loop decodeBytes bytes calibrationText [] tried =
     (Inl (NoMatchingEncoding calibrationText), tried)"
| "DetectEncoding_loop decodeBytes bytes calibrationText ((encodingName, enc) # rest) tried =
     (case decodeBytes enc bytes of
        Inl err \<Rightarrow>
          DetectEncoding_loop decodeBytes bytes calibrationText rest (tried @ [encodingName])
      | Inr decoded \<Rightarrow>
          if strings_Contains decoded calibrationText
          then (Inr encodingName, tried @ [encodingName])
          else DetectEncoding_loop decodeBytes bytes calibrationText rest (tried @ [encodingName]))"

definition DetectEncoding ::
  "('enc \<Rightarrow> string \<Rightarrow> 'err + string) \<Rightarrow> (string \<times> 'enc) list \<Rightarrow> string \<Rightarrow> string
     \<Rightarrow> (error + string) \<times> string list" where
  "DetectEncoding decodeBytes encodings bytes calibrationText =
     (if calibrationText = [] then (Inr ''UTF-8'', [])
      else DetectEncoding_loop decodeBytes bytes calibrationText encodings [])"

subsection \<open>parser: raw HTTP requests\<close>

text \<open>
  \<open>url_Query\<close> is \<^verbatim>\<open>url.Parse\<close> followed by \<^verbatim>\<open>Query()\<close>: an error message, or
  the query values in the order in which \<^verbatim>\<open>parseQueryParams\<close> visits them.
\<close>

definition validMethods :: "string list" where
  "validMethods = [''GET'', ''POST'', ''PUT'', ''DELETE'', ''PATCH'', ''HEAD'', ''OPTIONS'']"

definition parseRequestLine :: "(string \<Rightarrow> string) \<Rightarrow> string \<Rightarrow> error + string \<times> string" where
  "parseRequestLine ToUpper line =
     (let parts = strings_Fields line
      in if length parts < 2 then Inl InvalidRequestLine
         else
           let method = ToUpper (parts ! 0);
               url = parts ! 1;
               isValidMethod = (method \<in> set validMethods)
           in if \<not> isValidMethod then Inl (UnsupportedMethod method)
              else Inr (method, url))"

fun parseCookieHeader_loop :: "string list \<Rightarrow> (string \<rightharpoonup> string) \<Rightarrow> (string \<rightharpoonup> string)" where
  "parseCookieHeader_loop [] cookies = cookies"
| "parseCookieHeader_loop (pair # pairs) cookies =
     (let pair = strings_TrimSpace pair
      in case strings_Index pair ''='' of
           None \<Rightarrow> parseCookieHeader_loop pairs cookies
         | Some equalIndex \<Rightarrow>
             if equalIndex > 0 then
               let name = strings_TrimSpace (take equalIndex pair);
                   value = strings_TrimSpace (drop (equalIndex + 1) pair)
               in parseCookieHeader_loop pairs (cookies(name \<mapsto> value))
             else parseCookieHeader_loop pairs cookies)"

definition parseCookieHeader :: "string \<Rightarrow> (string \<rightharpoonup> string)" where
  "parseCookieHeader cookieHeader =
     parseCookieHeader_loop (strings_Split cookieHeader '';'') Map.empty"

fun parseQueryParams_loop ::
  "(string \<times> string list) list \<Rightarrow> (string \<rightharpoonup> string) \<Rightarrow> (string \<rightharpoonup> string)" where
  "parseQueryParams_loop [] params = params"
| "parseQueryParams_loop ((key, values) # rest) params =
     (if length values > 0 then parseQueryParams_loop rest (params(key \<mapsto> values ! 0))
      else parseQueryParams_loop rest params)"

definition parseQueryParams ::
  "(string \<Rightarrow> string + (string \<times> string list) list) \<Rightarrow> string \<Rightarrow> string + (string \<rightharpoonup> string)" where
  "parseQueryParams url_Query requestURL =
     (case url_Query requestURL of
        Inl err \<Rightarrow> Inl err
      | Inr query \<Rightarrow> Inr (parseQueryParams_loop query Map.empty))"

text \<open>
  The loop of \<^verbatim>\<open>Parse\<close> over the lines after the first. The third component of
  the result is \<^verbatim>\<open>bodyStartIndex\<close>, which stays 0 when the loop ends without
  reaching an empty line. The inner loop that copies \<^verbatim>\<open>cookieMap\<close> into
  \<^verbatim>\<open>cookies\<close> is the map addition \<open>++\<close>.
\<close>

fun RawRequestParser_Parse_loop ::
  "(string \<Rightarrow> string) \<Rightarrow> string list \<Rightarrow> nat \<Rightarrow> (string \<rightharpoonup> string) \<Rightarrow> (string \<rightharpoonup> string)
     \<Rightarrow> (string \<rightharpoonup> string) \<times> (string \<rightharpoonup> string) \<times> nat" where
  "RawRequestParser_Parse_loop ToLower [] i headers cookies = (headers, cookies, 0)"
| "RawRequestParser_Parse_loop ToLower (l # rest) i headers cookies =
     (let line = strings_TrimSpace l
      in if line = [] then (headers, cookies, i + 1)
         else
           case strings_Index line '':'' of
             None \<Rightarrow> RawRequestParser_Parse_loop ToLower rest (i + 1) headers cookies
           | Some colonIndex \<Rightarrow>
               if colonIndex > 0 then
                 let key = strings_TrimSpace (take colonIndex line);
                     value = strings_TrimSpace (drop (colonIndex + 1) line);
                     headers = headers(key \<mapsto> value);
                     cookies = (if ToLower key = ''cookie''
                                then cookies ++ parseCookieHeader value else cookies)
                 in RawRequestParser_Parse_loop ToLower rest (i + 1) headers cookies
               else RawRequestParser_Parse_loop ToLower rest (i + 1) headers cookies)"

text \<open>An index expression \<^verbatim>\<open>m[key]\<close> on a map of strings: the empty string when absent.\<close>

definition map_index :: "(string \<rightharpoonup> string) \<Rightarrow> string \<Rightarrow> string" where
  "map_index m key = (case m key of None \<Rightarrow> [] | Some v \<Rightarrow> v)"

definition RawRequestParser_Parse ::
  "(string \<Rightarrow> string) \<Rightarrow> (string \<Rightarrow> string)
     \<Rightarrow> (string \<Rightarrow> string + (string \<times> string list) list) \<Rightarrow> string \<Rightarrow> error + ParsedRequest" where
  "RawRequestParser_Parse ToUpper ToLower url_Query rawRequest =
     (if strings_TrimSpace rawRequest = [] then Inl EmptyRequest
      else
        let lines = strings_Split (strings_ReplaceAll rawRequest [CHR 0x0D, CHR 0x0A] [CHR 0x0A])
                      [CHR 0x0A]
        in if length lines = 0 then Inl InvalidRequestFormat
           else
             let requestLine = strings_TrimSpace (lines ! 0)
             in case parseRequestLine ToUpper requestLine of
                  Inl err \<Rightarrow> Inl (ParseRequestLineFailed err)
                | Inr (method, requestURL) \<Rightarrow>
                    (case RawRequestParser_Parse_loop ToLower (drop 1 lines) 1 Map.empty Map.empty of
                       (headers, cookies, bodyStartIndex) \<Rightarrow>
                         let body = (if bodyStartIndex < length lines
                                     then strings_TrimSpace
                                            (strings_Join (drop bodyStartIndex lines) [CHR 0x0A])
                                     else [])
                         in case parseQueryParams url_Query requestURL of
                              Inl err \<Rightarrow> Inl (ParseQueryFailed err)
                            | Inr queryParams \<Rightarrow>
                                let contentType = map_index headers ''Content-Type'';
                                    contentType = (if contentType = []
                                                   then map_index headers ''content-type''
                                                   else contentType)
                                in Inr \<lparr>Method = method, URL = requestURL, Headers = headers,
                                        Cookies = cookies, Body = body,
                                        QueryParams = queryParams,
                                        ContentType = contentType\<rparr>))"

text \<open>
  \<^verbatim>\<open>IsRawRequest\<close> matches the trimmed first line against
  \<^verbatim>\<open>^(GET|POST|PUT|DELETE|PATCH|HEAD|OPTIONS)\s+\S+(\s+HTTP/\d\.\d)?$\<close>. A method,
  white space, a maximal run without white space, and then either the end or white
  space and a version: \<open>match_httpMethodPattern\<close>.
\<close>

definition regexp_digit :: "char \<Rightarrow> bool" where
  "regexp_digit c = (c \<in> set ''0123456789'')"

definition match_http_version :: "string \<Rightarrow> bool" where
  "match_http_version s =
     (length s = 8 \<and> take 5 s = ''HTTP/'' \<and> regexp_digit (s ! 5) \<and> s ! 6 = CHR ''.''
      \<and> regexp_digit (s ! 7))"

definition match_after_method :: "string \<Rightarrow> bool" where
  "match_after_method s =
     (let space1 = takeWhile regexp_space s;
          s1 = dropWhile regexp_space s;
          target = takeWhile (\<lambda>c. \<not> regexp_space c) s1;
          s2 = dropWhile (\<lambda>c. \<not> regexp_space c) s1;
          space2 = takeWhile regexp_space s2;
          s3 = dropWhile regexp_space s2
      in space1 \<noteq> [] \<and> target \<noteq> [] \<and> (s2 = [] \<or> (space2 \<noteq> [] \<and> match_http_version s3)))"

definition match_httpMethodPattern :: "string \<Rightarrow> bool" where
  "match_httpMethodPattern s =
     list_ex (\<lambda>m. strings_HasPrefix s m \<and> match_after_method (drop (length m) s)) validMethods"

definition IsRawRequest :: "string \<Rightarrow> bool" where
  "IsRawRequest input =
     (let lines = strings_Split (strings_TrimSpace input) [CHR 0x0A]
      in if length lines = 0 then False
         else let firstLine = strings_TrimSpace (lines ! 0)
              in match_httpMethodPattern firstLine)"

subsection \<open>parser: the curl command line\<close>

text \<open>
  \<^verbatim>\<open>cleanCurlCommand\<close> applies two regular-expression replacements and trims the
  result. \<open>replace_continuations\<close> is the replacement of every leftmost match of
  \<^verbatim>\<open>\\\s*\n\s*\<close> (a backslash followed by a run of white space that contains a
  newline) by one space; \<open>collapse_spaces\<close> is the replacement of every match of
  \<^verbatim>\<open>\s+\<close> by one space.
\<close>

function replace_continuations :: "string \<Rightarrow> string" where
  "replace_continuations [] = []"
| "replace_continuations (c # s) =
     (if c = CHR 0x5C \<and> CHR 0x0A \<in> set (takeWhile regexp_space s)
      then CHR '' '' # replace_continuations (dropWhile regexp_space s)
      else c # replace_continuations s)"
  by pat_completeness auto
termination
  by (relation "measure length") (auto simp: length_dropWhile_le less_Suc_eq_le)

function collapse_spaces :: "string \<Rightarrow> string" where
  "collapse_spaces [] = []"
| "collapse_spaces (c # s) =
     (if regexp_space c then CHR '' '' # collapse_spaces (dropWhile regexp_space s)
      else c # collapse_spaces s)"
  by pat_completeness auto
termination
  by (relation "measure length") (auto simp: length_dropWhile_le less_Suc_eq_le)

definition cleanCurlCommand :: "string \<Rightarrow> string" where
  "cleanCurlCommand command =
     strings_TrimSpace (collapse_spaces (replace_continuations command))"

text \<open>
  \<^verbatim>\<open>parseCurlArgs\<close>: the loop over the characters of the command with its five
  local variables. The loop tests ASCII characters only, so on well-formed UTF-8 the
  bytes of the model and the runes of the code give the same arguments.
\<close>

fun parseCurlArgs_loop ::
  "string \<Rightarrow> string list \<Rightarrow> string \<Rightarrow> bool \<Rightarrow> char \<Rightarrow> bool \<Rightarrow> string list" where
  "parseCurlArgs_loop [] args current inQuotes quoteChar escaped =
     (if length current > 0 then args @ [current] else args)"
| "parseCurlArgs_loop (char # rest) args current inQuotes quoteChar escaped =
     (if escaped then parseCurlArgs_loop rest args (current @ [char]) inQuotes quoteChar False
      else if char = CHR 0x5C then parseCurlArgs_loop rest args current inQuotes quoteChar True
      else if \<not> inQuotes \<and> (char = CHR 0x22 \<or> char = CHR 0x27)
        then parseCurlArgs_loop rest args current True char escaped
      else if inQuotes \<and> char = quoteChar
        then parseCurlArgs_loop rest args current False quoteChar escaped
      else if \<not> inQuotes \<and> char = CHR '' ''
        then (if length current > 0
              then parseCurlArgs_loop rest (args @ [current]) [] inQuotes quoteChar escaped
              else parseCurlArgs_loop rest args current inQuotes quoteChar escaped)
      else parseCurlArgs_loop rest args (current @ [char]) inQuotes quoteChar escaped)"

definition parseCurlArgs :: "string \<Rightarrow> string list" where
  "parseCurlArgs command = parseCurlArgs_loop command [] [] False (CHR 0x00) False"

text \<open>
  \<^verbatim>\<open>extractURL\<close>. In \<^verbatim>\<open>for i, arg := range args\<close> the range clause assigns
  \<^verbatim>\<open>i\<close> and \<^verbatim>\<open>arg\<close> afresh at the start of every iteration from its own
  position \<open>k\<close> in the slice; the statement \<^verbatim>\<open>i++\<close> in the body changes the
  variable \<^verbatim>\<open>i\<close> of that iteration (the inner \<open>let\<close> below) and nothing else.
\<close>

function extractURL_range :: "string list \<Rightarrow> nat \<Rightarrow> string" where
  "extractURL_range args k =
     (if k < length args then
        let i = k; arg = args ! k in
        if arg = ''curl'' then extractURL_range args (k + 1)
        else if strings_HasPrefix arg ''-'' then
          let i = (if i + 1 < length args \<and> \<not> strings_HasPrefix (args ! (i + 1)) ''-''
                   then i + 1 else i)
          in extractURL_range args (k + 1)
        else arg
      else [])"
  by pat_completeness auto
termination
  by (relation "measure (\<lambda>(args, k). length args - k)") auto

definition extractURL :: "string list \<Rightarrow> string" where
  "extractURL args = extractURL_range args 0"

text \<open>
  The other extractors. Each is a \<^verbatim>\<open>range\<close> loop over \<^verbatim>\<open>args\<close> that reads
  \<^verbatim>\<open>args[i+1]\<close> after a flag.
\<close>

function extractMethod_range :: "(string \<Rightarrow> string) \<Rightarrow> string list \<Rightarrow> nat \<Rightarrow> string" where
  "extractMethod_range ToUpper args k =
     (if k < length args then
        let i = k; arg = args ! k in
        if (arg = ''-X'' \<or> arg = ''--request'') \<and> i + 1 < length args
        then ToUpper (args ! (i + 1))
        else extractMethod_range ToUpper args (k + 1)
      else ''GET'')"
  by pat_completeness auto
termination
  by (relation "measure (\<lambda>(ToUpper, args, k). length args - k)") auto

declare extractMethod_range.simps [simp del]

definition extractMethod :: "(string \<Rightarrow> string) \<Rightarrow> string list \<Rightarrow> string" where
  "extractMethod ToUpper args = extractMethod_range ToUpper args 0"

function extractHeaders_range ::
  "string list \<Rightarrow> nat \<Rightarrow> (string \<rightharpoonup> string) \<Rightarrow> (string \<rightharpoonup> string)" where
  "extractHeaders_range args k headers =
     (if k < length args then
        let i = k; arg = args ! k in
        if (arg = ''-H'' \<or> arg = ''--header'') \<and> i + 1 < length args then
          let headerValue = args ! (i + 1) in
          case strings_Index headerValue '':'' of
            None \<Rightarrow> extractHeaders_range args (k + 1) headers
          | Some colonIndex \<Rightarrow>
              if colonIndex > 0 then
                let key = strings_TrimSpace (take colonIndex headerValue);
                    value = strings_TrimSpace (drop (colonIndex + 1) headerValue)
                in extractHeaders_range args (k + 1) (headers(key \<mapsto> value))
              else extractHeaders_range args (k + 1) headers
        else extractHeaders_range args (k + 1) headers
      else headers)"
  by pat_completeness auto
termination
  by (relation "measure (\<lambda>(args, k, headers). length args - k)") auto

declare extractHeaders_range.simps [simp del]

definition extractHeaders :: "string list \<Rightarrow> (string \<rightharpoonup> string)" where
  "extractHeaders args = extractHeaders_range args 0 Map.empty"

function extractCookies_range ::
  "string list \<Rightarrow> nat \<Rightarrow> (string \<rightharpoonup> string) \<Rightarrow> (string \<rightharpoonup> string)" where
  "extractCookies_range args k cookies =
     (if k < length args then
        let i = k; arg = args ! k in
        if (arg = ''-b'' \<or> arg = ''--cookie'') \<and> i + 1 < length args then
          let cookieValue = args ! (i + 1);
              pairs = strings_Split cookieValue '';''
          in extractCookies_range args (k + 1) (parseCookieHeader_loop pairs cookies)
        else extractCookies_range args (k + 1) cookies
      else cookies)"
  by pat_completeness auto
termination
  by (relation "measure (\<lambda>(args, k, cookies). length args - k)") auto

declare extractCookies_range.simps [simp del]

definition extractCookies :: "string list \<Rightarrow> (string \<rightharpoonup> string)" where
  "extractCookies args = extractCookies_range args 0 Map.empty"

function extractBody_range :: "string list \<Rightarrow> nat \<Rightarrow> string" where
  "extractBody_range args k =
     (if k < length args then
        let i = k; arg = args ! k in
        if (arg = ''-d'' \<or> arg = ''--data'' \<or> arg = ''--data-raw'') \<and> i + 1 < length args
        then args ! (i + 1)
        else extractBody_range args (k + 1)
      else [])"
  by pat_completeness auto
termination
  by (relation "measure (\<lambda>(args, k). length args - k)") auto

declare extractBody_range.simps [simp del]

definition extractBody :: "string list \<Rightarrow> string" where
  "extractBody args = extractBody_range args 0"

definition CurlRequestParser_Parse ::
  "(string \<Rightarrow> string) \<Rightarrow> (string \<Rightarrow> string + (string \<times> string list) list) \<Rightarrow> string
     \<Rightarrow> error + ParsedRequest" where
  "CurlRequestParser_Parse ToUpper url_Query curlCommand =
     (if strings_TrimSpace curlCommand = [] then Inl EmptyCurlCommand
      else
        let cleanCommand = cleanCurlCommand curlCommand;
            args = parseCurlArgs cleanCommand;
            requestURL = extractURL args
        in if requestURL = [] then Inl UrlNotFound
           else
             let method = extractMethod ToUpper args;
                 headers = extractHeaders args;
                 cookies = extractCookies args;
                 body = extractBody args
             in case parseQueryParams url_Query requestURL of
                  Inl err \<Rightarrow> Inl (ParseQueryFailed err)
                | Inr queryParams \<Rightarrow>
                    let contentType = map_index headers ''Content-Type'';
                        contentType = (if contentType = []
                                       then map_index headers ''content-type''
                                       else contentType)
                    in Inr \<lparr>Method = method, URL = requestURL, Headers = headers,
                            Cookies = cookies, Body = body, QueryParams = queryParams,
                            ContentType = contentType\<rparr>)"

subsection \<open>parser: detection and dispatch\<close>

definition IsCurlCommand :: "string \<Rightarrow> bool" where
  "IsCurlCommand input =
     (let trimmed = strings_TrimSpace input
      in strings_HasPrefix trimmed ''curl '' \<or> trimmed = ''curl'')"

definition DetectInputType :: "string \<Rightarrow> string" where
  "DetectInputType input =
     (let trimmed = strings_TrimSpace input
      in if IsCurlCommand trimmed then ''curl''
         else if IsRawRequest trimmed then ''raw''
         else ''unknown'')"

definition UnifiedRequestParser_Parse ::
  "(string \<Rightarrow> string) \<Rightarrow> (string \<Rightarrow> string)
     \<Rightarrow> (string \<Rightarrow> string + (string \<times> string list) list) \<Rightarrow> string \<Rightarrow> error + ParsedRequest" where
  "UnifiedRequestParser_Parse ToUpper ToLower url_Query input =
     (if strings_TrimSpace input = [] then Inl EmptyInput
      else
        let inputType = DetectInputType input
        in if inputType = ''curl'' then CurlRequestParser_Parse ToUpper url_Query input
           else if inputType = ''raw'' then RawRequestParser_Parse ToUpper ToLower url_Query input
           else Inl UnrecognizedFormat)"

subsection \<open>tester: requests with retry\<close>

text \<open>
  \<^verbatim>\<open>TestRequestWithRetry\<close>. \<open>TestRequest attempt req config\<close> is the outcome of
  the call of \<^verbatim>\<open>TestRequest\<close> in iteration \<open>attempt\<close>: the network decides it, so
  it is an argument. Next to the result the model returns the trace of the loop, the
  attempts and the calls of \<^verbatim>\<open>time.Sleep\<close> in order.

  \<open>waitTime\<close> is \<^verbatim>\<open>time.Duration(100*(1<<attempt)) * time.Millisecond\<close>, a 64-bit
  signed number of nanoseconds that wraps around. The loop counter is an unbounded
  integer; it agrees with Go's 64-bit \<^verbatim>\<open>int\<close> as long as \<^verbatim>\<open>attempt++\<close> does not
  overflow, that is for \<open>maxRetries < 2 ^ 63 - 1\<close>.
\<close>

datatype event = Attempt int | Sleep "64 word"

definition waitTime :: "int \<Rightarrow> 64 word" where
  "waitTime attempt = (100 * push_bit (nat attempt) 1) * 1000000"

function TestRequestWithRetry_loop ::
  "(int \<Rightarrow> error + 'r) \<Rightarrow> int \<Rightarrow> int \<Rightarrow> error option \<Rightarrow> event list
     \<Rightarrow> (error + 'r) \<times> event list" where
  "TestRequestWithRetry_loop TestRequest maxRetries attempt lastErr trace =
     (if attempt \<le> maxRetries then
        (case TestRequest attempt of
           Inr response \<Rightarrow> (Inr response, trace @ [Attempt attempt])
         | Inl err \<Rightarrow>
             if attempt < maxRetries
             then TestRequestWithRetry_loop TestRequest maxRetries (attempt + 1) (Some err)
                    (trace @ [Attempt attempt, Sleep (waitTime attempt)])
             else TestRequestWithRetry_loop TestRequest maxRetries (attempt + 1) (Some err)
                    (trace @ [Attempt attempt]))
      else (Inl (RetriesExhausted maxRetries lastErr), trace))"
  by pat_completeness auto
termination
  by (relation "measure (\<lambda>(T, m, a, e, tr). nat (m + 1 - a))") auto

declare TestRequestWithRetry_loop.simps [simp del]

definition TestRequestWithRetry ::
  "(int \<Rightarrow> ParsedRequest \<Rightarrow> ValidationConfig \<Rightarrow> error + ResponseData)
     \<Rightarrow> ParsedRequest \<Rightarrow> ValidationConfig \<Rightarrow> (error + ResponseData) \<times> event list" where
  "TestRequestWithRetry TestRequest req config =
     (let maxRetries = MaxRetries config;
          maxRetries = (if maxRetries \<le> 0 then 3 else maxRetries)
      in TestRequestWithRetry_loop (\<lambda>attempt. TestRequest attempt req config)
           maxRetries 0 None [])"

fun is_Attempt :: "event \<Rightarrow> bool" where
  "is_Attempt (Attempt a) = True"
| "is_Attempt (Sleep d) = False"

subsection \<open>Package net/http\<close>

text \<open>
  What \<^verbatim>\<open>createHTTPRequest\<close> uses of \<^verbatim>\<open>net/http\<close>, after the documentation of
  the package. A \<^verbatim>\<open>http.Header\<close> maps canonical header names to lists of values;
  \<^verbatim>\<open>Set\<close> and \<^verbatim>\<open>Get\<close> canonicalise the name they are given
  (\<^verbatim>\<open>textproto.CanonicalMIMEHeaderKey\<close>: first letter and every letter after a dash
  in upper case, the others in lower case, and no change when the name has a byte
  that is not a token character). \<^verbatim>\<open>AddCookie\<close> does not attach a second
  \<^verbatim>\<open>Cookie\<close> header: it appends \<open>name=value\<close> to the value of the header
  \<^verbatim>\<open>Cookie\<close>, separated by a semicolon and a space. The sanitizers of cookie names
  and values are arguments of the model. \<open>NewRequest\<close>, an argument as well, is
  \<^verbatim>\<open>http.NewRequest\<close>, which fails on a method or URL it cannot parse;
  \<open>NewRequest_accepted\<close> is its result on a method and URL it accepts.
\<close>

definition validHeaderFieldByte :: "char \<Rightarrow> bool" where
  "validHeaderFieldByte c =
     (let n = (of_char c :: nat)
      in (48 \<le> n \<and> n \<le> 57) \<or> (65 \<le> n \<and> n \<le> 90) \<or> (97 \<le> n \<and> n \<le> 122)
         \<or> c \<in> set ''!#$%&*+-.^_`|~'' \<or> n = 39)"

fun canonicalMIMEHeaderKey_loop :: "bool \<Rightarrow> string \<Rightarrow> string" where
  "canonicalMIMEHeaderKey_loop upper [] = []"
| "canonicalMIMEHeaderKey_loop upper (c # rest) =
     (let n = (of_char c :: nat);
          c = (if upper \<and> 97 \<le> n \<and> n \<le> 122 then char_of (n - 32)
               else if \<not> upper \<and> 65 \<le> n \<and> n \<le> 90 then char_of (n + 32)
               else c)
      in c # canonicalMIMEHeaderKey_loop (c = CHR ''-'') rest)"

definition CanonicalMIMEHeaderKey :: "string \<Rightarrow> string" where
  "CanonicalMIMEHeaderKey s =
     (if list_all validHeaderFieldByte s then canonicalMIMEHeaderKey_loop True s else s)"

record HTTPRequest =
  hr_Method :: string
  hr_URL :: string
  hr_Body :: "string option"
  Header :: "string \<rightharpoonup> string list"

definition Header_Set :: "string \<Rightarrow> string \<Rightarrow> (string \<rightharpoonup> string list) \<Rightarrow> (string \<rightharpoonup> string list)" where
  "Header_Set key value h = h(CanonicalMIMEHeaderKey key \<mapsto> [value])"

definition Header_Get :: "string \<Rightarrow> (string \<rightharpoonup> string list) \<Rightarrow> string" where
  "Header_Get key h =
     (case h (CanonicalMIMEHeaderKey key) of
        None \<Rightarrow> [] | Some [] \<Rightarrow> [] | Some (v # vs) \<Rightarrow> v)"

definition AddCookie ::
  "(string \<Rightarrow> string) \<Rightarrow> (string \<Rightarrow> string) \<Rightarrow> string \<Rightarrow> string \<Rightarrow> HTTPRequest \<Rightarrow> HTTPRequest" where
  "AddCookie sanitizeCookieName sanitizeCookieValue name value httpReq =
     (let s = sanitizeCookieName name @ ''='' @ sanitizeCookieValue value;
          c = Header_Get ''Cookie'' (Header httpReq)
      in if c \<noteq> [] then httpReq\<lparr>Header := Header_Set ''Cookie'' (c @ ''; '' @ s) (Header httpReq)\<rparr>
         else httpReq\<lparr>Header := Header_Set ''Cookie'' s (Header httpReq)\<rparr>)"

definition NewRequest_accepted :: "string \<Rightarrow> string \<Rightarrow> string option \<Rightarrow> error + HTTPRequest" where
  "NewRequest_accepted method url body =
     Inr \<lparr>hr_Method = method, hr_URL = url, hr_Body = body, Header = Map.empty\<rparr>"

text \<open>
  When the transport writes a request it takes the \<^verbatim>\<open>User-Agent\<close> line from the
  header map if the map has the key, and the default of the package otherwise; an
  empty value writes no line. \<open>written_UserAgent\<close> is the value of the line written,
  if any.
\<close>

definition defaultUserAgent :: string where
  "defaultUserAgent = ''Go-http-client/1.1''"

definition written_UserAgent :: "(string \<rightharpoonup> string list) \<Rightarrow> string option" where
  "written_UserAgent h =
     (let userAgent = (case h ''User-Agent'' of
                         None \<Rightarrow> defaultUserAgent
                       | Some vs \<Rightarrow> (case vs of [] \<Rightarrow> [] | v # _ \<Rightarrow> v))
      in if userAgent \<noteq> [] then Some userAgent else None)"

subsection \<open>tester: the outgoing request\<close>

definition createHTTPRequest ::
  "(string \<Rightarrow> string) \<Rightarrow> (string \<Rightarrow> string \<Rightarrow> string option \<Rightarrow> error + HTTPRequest)
     \<Rightarrow> (string \<Rightarrow> string) \<Rightarrow> (string \<Rightarrow> string) \<Rightarrow> string list \<Rightarrow> string list
     \<Rightarrow> ParsedRequest \<Rightarrow> error + HTTPRequest" where
  "createHTTPRequest ToLower NewRequest sanitizeCookieName sanitizeCookieValue
       headerOrder cookieOrder req =
     (let body = (if Body req \<noteq> [] then Some (Body req) else None)
      in case NewRequest (Method req) (URL req) body of
           Inl err \<Rightarrow> Inl err
         | Inr httpReq \<Rightarrow>
             let httpReq = httpReq\<lparr>Header := Map.empty\<rparr>;
                 httpReq =
                   range_map headerOrder (Headers req)
                     (\<lambda>key value httpReq.
                        if ToLower key = ''user-agent'' \<and> value = [] then httpReq
                        else httpReq\<lparr>Header := Header_Set key value (Header httpReq)\<rparr>)
                     httpReq;
                 httpReq =
                   range_map cookieOrder (Cookies req)
                     (\<lambda>name value httpReq.
                        AddCookie sanitizeCookieName sanitizeCookieValue name value httpReq)
                     httpReq
             in Inr httpReq)"

subsection \<open>tester: the simplified request\<close>

definition generateSimplifiedRequestFromCumulative ::
  "string list \<Rightarrow> string list \<Rightarrow> string list \<Rightarrow> ParsedRequest \<Rightarrow> TestResults \<Rightarrow> ParsedRequest" where
  "generateSimplifiedRequestFromCumulative headerOrder cookieOrder queryOrder original results =
     (let simplified =
            \<lparr>Method = Method original, URL = URL original, Headers = Map.empty,
             Cookies = Map.empty, Body = Body original, QueryParams = Map.empty,
             ContentType = ContentType original\<rparr>;
          simplified =
            range_map headerOrder (tr_Headers results)
              (\<lambda>headerName result simplified.
                 if Required result then
                   (case Headers original headerName of
                      Some value \<Rightarrow>
                        simplified\<lparr>Headers := (Headers simplified)(headerName \<mapsto> value)\<rparr>
                    | None \<Rightarrow> simplified)
                 else simplified)
              simplified;
          simplified =
            range_map cookieOrder (tr_Cookies results)
              (\<lambda>cookieName result simplified.
                 if Required result then
                   (case Cookies original cookieName of
                      Some value \<Rightarrow>
                        simplified\<lparr>Cookies := (Cookies simplified)(cookieName \<mapsto> value)\<rparr>
                    | None \<Rightarrow> simplified)
                 else simplified)
              simplified;
          simplified =
            range_map queryOrder (QueryParams original)
              (\<lambda>key value simplified.
                 simplified\<lparr>QueryParams := (QueryParams simplified)(key \<mapsto> value)\<rparr>)
              simplified
      in simplified)"

subsection \<open>The allowed expressions, in the words of the specification\<close>

text \<open>
  \<open>allowed_expr\<close> holds for the expressions built from the allowed set only: the
  fields \<^verbatim>\<open>response.<field>\<close>, the bare names \<open>response\<close>, \<open>true\<close>, \<open>false\<close>
  and \<open>nil\<close>, literals, parentheses, the allowed operators, and calls of an allowed
  function or of \<^verbatim>\<open>response.json\<close> on allowed arguments.
  \<open>named_call_targets\<close> holds when every called expression is an identifier or a
  selector, the two forms that \<^verbatim>\<open>validateASTNode\<close> examines.
\<close>

fun allowed_call_target :: "expr \<Rightarrow> bool" where
  "allowed_call_target (Ident name) = allowedFunctions name"
| "allowed_call_target (SelectorExpr x sel) = (x = Ident ''response'' \<and> isAllowedResponseMethod sel)"
| "allowed_call_target fn = False"

fun allowed_expr :: "expr \<Rightarrow> bool"
  and allowed_exprs :: "expr list \<Rightarrow> bool" where
  "allowed_expr (BinaryExpr x op y) = (allowed_expr x \<and> allowed_expr y \<and> allowedOperators op)"
| "allowed_expr (UnaryExpr op x) = (allowed_expr x \<and> allowedOperators op)"
| "allowed_expr (CallExpr fn args) = (allowed_call_target fn \<and> allowed_exprs args)"
| "allowed_expr (SelectorExpr x sel) = (x = Ident ''response'' \<and> isAllowedResponseField sel)"
| "allowed_expr (Ident name) = (name = ''response'' \<or> isBuiltinConstant name)"
| "allowed_expr (BasicLit v) = True"
| "allowed_expr (ParenExpr x) = allowed_expr x"
| "allowed_expr (OtherExpr t) = False"
| "allowed_exprs [] = True"
| "allowed_exprs (arg # args) = (allowed_expr arg \<and> allowed_exprs args)"

fun named_call_target :: "expr \<Rightarrow> bool" where
  "named_call_target (Ident name) = True"
| "named_call_target (SelectorExpr x sel) = True"
| "named_call_target fn = False"

fun named_call_targets :: "expr \<Rightarrow> bool"
  and named_call_targets_list :: "expr list \<Rightarrow> bool" where
  "named_call_targets (BinaryExpr x op y) = (named_call_targets x \<and> named_call_targets y)"
| "named_call_targets (UnaryExpr op x) = named_call_targets x"
| "named_call_targets (CallExpr fn args) = (named_call_target fn \<and> named_call_targets_list args)"
| "named_call_targets (SelectorExpr x sel) = True"
| "named_call_targets (Ident name) = True"
| "named_call_targets (BasicLit v) = True"
| "named_call_targets (ParenExpr x) = named_call_targets x"
| "named_call_targets (OtherExpr t) = True"
| "named_call_targets_list [] = True"
| "named_call_targets_list (arg # args) = (named_call_targets arg \<and> named_call_targets_list args)"

text \<open>
  The trace of a run whose last attempt has number \<open>k\<close>: attempts \<open>0\<close> to \<open>k\<close>, and
  after every attempt but the last the sleep of that attempt.
\<close>

definition backoff_trace :: "int \<Rightarrow> event list" where
  "backoff_trace k =
     concat (map (\<lambda>a. [Attempt a, Sleep (waitTime a)]) [0..k - 1]) @ [Attempt k]"

text \<open>The invariant of the first two loops of \<^verbatim>\<open>generateSimplifiedRequestFromCumulative\<close>.\<close>

definition simplified_of :: "ParsedRequest \<Rightarrow> ParsedRequest \<Rightarrow> bool" where
  "simplified_of original s \<longleftrightarrow>
     Headers s \<subseteq>\<^sub>m Headers original \<and> Cookies s \<subseteq>\<^sub>m Cookies original
     \<and> QueryParams s = Map.empty
     \<and> Method s = Method original \<and> URL s = URL original \<and> Body s = Body original
     \<and> ContentType s = ContentType original"

subsection \<open>Example inputs\<close>

text \<open>
  \<open>parsed_status_is_404\<close> stands for \<^verbatim>\<open>parser.ParseExpr\<close> on the expression
  \<^verbatim>\<open>response.status_code == 404\<close>, and \<open>parsed_system_call\<close> on
  \<^verbatim>\<open>system(response)\<close>. \<open>leading_newline_request\<close> is a raw request behind one
  empty line. \<open>cookie_request\<close> is what the raw parser yields for a request with an
  empty \<^verbatim>\<open>User-Agent\<close> header and the header \<^verbatim>\<open>Cookie: s=1\<close>.
\<close>

definition example_request :: ParsedRequest where
  "example_request =
     \<lparr>Method = ''GET'', URL = ''https://api.example.com/v1/ping?page=2'',
      Headers = [''X-Trace'' \<mapsto> ''1'', ''Accept'' \<mapsto> ''*/*''], Cookies = Map.empty,
      Body = [], QueryParams = [''page'' \<mapsto> ''2''], ContentType = []\<rparr>"

definition example_config :: "int \<Rightarrow> ValidationConfig" where
  "example_config maxRetries =
     \<lparr>Expression = [], Timeout = 0, MaxRetries = maxRetries, FollowRedirect = True,
      UserAgent = [],
      TextMatching = \<lparr>tm_Enabled = False, Texts = [], MatchMode = ''all'', CaseSensitive = False\<rparr>,
      LengthRange = \<lparr>lr_Enabled = True, MinLength = 0, MaxLength = -1\<rparr>,
      UseCustomExpr = False,
      EncodingConfig = \<lparr>enc_Enabled = False, CalibrationText = [], SupportedEncodings = [],
                        enc_DetectedEncoding = []\<rparr>,
      PreserveUserAgent = False\<rparr>"

definition example_response :: "int \<Rightarrow> string \<Rightarrow> ResponseData" where
  "example_response statusCode body =
     \<lparr>StatusCode = statusCode, resp_Headers = Map.empty, resp_Body = body, resp_Cookies = [],
      resp_URL = ''https://api.example.com/v1/ping'', Duration = 0,
      ContentLength = int (length body), CharacterCount = int (length body), RawBody = body,
      DetectedEncoding = ''utf-8''\<rparr>"

definition parsed_status_is_404 :: "string \<Rightarrow> string + expr" where
  "parsed_status_is_404 expression =
     Inr (BinaryExpr (SelectorExpr (Ident ''response'') ''status_code'') ''=='' (BasicLit ''404''))"

definition leading_newline_request :: string where
  "leading_newline_request =
     [CHR 0x0A] @ ''GET http://a.test/x HTTP/1.1'' @ [CHR 0x0A] @ ''Host: a.test''
       @ [CHR 0x0A, CHR 0x0A]"

definition cookie_request :: ParsedRequest where
  "cookie_request =
     \<lparr>Method = ''GET'', URL = ''https://a.test/x'',
      Headers = [''User-Agent'' \<mapsto> [], ''Cookie'' \<mapsto> ''s=1''], Cookies = [''s'' \<mapsto> ''1''],
      Body = [], QueryParams = Map.empty, ContentType = []\<rparr>"

definition parsed_system_call :: "string \<Rightarrow> string + expr" where
  "parsed_system_call expression = Inr (CallExpr (Ident ''system'') [Ident ''response''])"

definition custom_config :: ValidationConfig where
  "custom_config =
     (example_config 3)\<lparr>UseCustomExpr := True, Expression := ''response.status_code == 404''\<rparr>"

definition example_results :: TestResults where
  "example_results =
     \<lparr>tr_Headers =
        [''X-Trace'' \<mapsto>
           \<lparr>Required = True, Value = ''1'',
            TestResult = \<lparr>Success = False, Error = [], Note = [], ResponseInfo = None\<rparr>\<rparr>,
         ''Accept'' \<mapsto>
           \<lparr>Required = False, Value = ''*/*'',
            TestResult = \<lparr>Success = True, Error = [], Note = [], ResponseInfo = None\<rparr>\<rparr>],
      tr_Cookies = Map.empty\<rparr>"


section \<open>Properties\<close>

subsection \<open>Length range\<close>

text \<open>
  C4 (as the code has it). With \<open>minLength = 0\<close> and \<open>maxLength = 0\<close> the length check
  passes for every response body, whatever its length: the upper bound is only applied
  when \<open>maxLength\<close> is positive.
\<close>

theorem checkLengthRange_zero_bounds:
  "MinLength config = 0 \<Longrightarrow> MaxLength config = 0 \<Longrightarrow> checkLengthRange config responseBody"
  by (simp add: checkLengthRange_def)

theorem checkLengthRange_zero_bounds_witness:
  "MinLength \<lparr>lr_Enabled = True, MinLength = 0, MaxLength = 0\<rparr> = 0
   \<and> MaxLength \<lparr>lr_Enabled = True, MinLength = 0, MaxLength = 0\<rparr> = 0
   \<and> checkLengthRange \<lparr>lr_Enabled = True, MinLength = 0, MaxLength = 0\<rparr> ''hello''"
  using checkLengthRange_zero_bounds
          [of "\<lparr>lr_Enabled = True, MinLength = 0, MaxLength = 0\<rparr>" "''hello''"]
  by simp

text \<open>
  The statement "passes if and only if the body has length 0" fails for the one-byte
  body \<open>x\<close>.
\<close>

theorem checkLengthRange_zero_bounds_counterexample:
  "\<not> (checkLengthRange \<lparr>lr_Enabled = True, MinLength = 0, MaxLength = 0\<rparr> ''x''
        \<longleftrightarrow> length ''x'' = 0)"
  by (simp add: checkLengthRange_def)

subsection \<open>Calibration detection with an empty calibration text\<close>

text \<open>
  C10. Called with the empty calibration string, \<^verbatim>\<open>DetectEncoding\<close> returns the name
  \<open>UTF-8\<close> and no error, for every byte input and every registry, and no codec is tried.
\<close>

theorem DetectEncoding_empty_calibration:
  "DetectEncoding decodeBytes encodings bytes [] = (Inr ''UTF-8'', [])"
  by (simp add: DetectEncoding_def)

subsection \<open>Text matching, mode all\<close>

text \<open>
  Outside mode \<^verbatim>\<open>any\<close> the loop counts the needles that are non-empty and contained
  in the text.
\<close>

lemma checkTextMatching_loop_count:
  "MatchMode config \<noteq> ''any'' \<Longrightarrow>
   checkTextMatching_loop L config text ts n =
     Inr (n + int (length (filter (\<lambda>t. t \<noteq> [] \<and>
            strings_Contains text (if \<not> CaseSensitive config then L t else t)) ts)))"
  by (induction ts arbitrary: n) (simp_all add: Let_def)

lemma length_filter_eq_iff: "length (filter P xs) = length xs \<longleftrightarrow> (\<forall>x\<in>set xs. P x)"
  by (metis filter_id_conv length_filter_less less_irrefl_nat filter_True)

text \<open>
  What the code computes in mode \<^verbatim>\<open>all\<close> for a non-empty list: the count is compared
  with the length of the whole list, so the check passes exactly when every needle is
  non-empty and contained.
\<close>

lemma checkTextMatching_all_iff:
  assumes "MatchMode config = ''all''" "Texts config \<noteq> []"
  shows "checkTextMatching L config body \<longleftrightarrow>
     (\<forall>t\<in>set (Texts config). t \<noteq> [] \<and>
        strings_Contains (if \<not> CaseSensitive config then L body else body)
                         (if \<not> CaseSensitive config then L t else t))"
proof -
  have "MatchMode config \<noteq> ''any''" using assms(1) by simp
  from checkTextMatching_loop_count [OF this] assms show ?thesis
    by (simp add: checkTextMatching_def Let_def length_filter_eq_iff)
qed

text \<open>
  C3 (the code at the failing input). The needles are the empty string and \<open>ok\<close>, the
  mode is \<^verbatim>\<open>all\<close>, the body is \<open>ok\<close>: every non-empty needle is contained in the
  body, and the check fails, because the skipped empty needle still counts in
  \<^verbatim>\<open>len(config.Texts)\<close>.
\<close>

theorem checkTextMatching_all_empty_needle_fails:
  "checkTextMatching ToLower
     \<lparr>tm_Enabled = True, Texts = ['''', ''ok''], MatchMode = ''all'', CaseSensitive = True\<rparr>
     ''ok'' = False"
  by (simp add: checkTextMatching_def strings_HasPrefix_def)

subsection \<open>The URL of a curl command\<close>

text \<open>
  \<^verbatim>\<open>extractURL\<close> returns the first argument that is not \<open>curl\<close> and does not start
  with a dash; whether that argument is the value of the flag before it plays no role.
\<close>

lemma extractURL_range_first:
  "extractURL_range args k =
     (case filter (\<lambda>a. a \<noteq> ''curl'' \<and> \<not> strings_HasPrefix a ''-'') (drop k args) of
        [] \<Rightarrow> [] | a # _ \<Rightarrow> a)"
proof (induction args k rule: extractURL_range.induct)
  case (1 args k)
  show ?case
  proof (cases "k < length args")
    case False
    then show ?thesis by simp
  next
    case True
    then have d: "drop k args = args ! k # drop (Suc k) args"
      by (simp add: Cons_nth_drop_Suc)
    show ?thesis
    proof (cases "args ! k = ''curl''")
      case c: True
      with True 1(1) d show ?thesis by (simp add: Let_def)
    next
      case c: False
      show ?thesis
      proof (cases "strings_HasPrefix (args ! k) ''-''")
        case h: True
        from 1(2) [OF True refl refl c h refl] True c h d show ?thesis
          by (simp add: Let_def)
      next
        case h: False
        with True c d show ?thesis by (simp add: Let_def)
      qed
    qed
  qed
qed

lemma extractURL_first:
  "extractURL args =
     (case filter (\<lambda>a. a \<noteq> ''curl'' \<and> \<not> strings_HasPrefix a ''-'') args of
        [] \<Rightarrow> [] | a # _ \<Rightarrow> a)"
  by (simp only: extractURL_def extractURL_range_first drop_0)

text \<open>The URL of a parsed curl command is the result of \<^verbatim>\<open>extractURL\<close>.\<close>

lemma CurlRequestParser_Parse_URL:
  assumes "CurlRequestParser_Parse ToUpper url_Query curlCommand = Inr req"
  shows "URL req = extractURL (parseCurlArgs (cleanCurlCommand curlCommand))"
  using assms
  by (auto simp: CurlRequestParser_Parse_def Let_def split: if_splits sum.splits)

text \<open>
  C7 (the code at the failing input). For the command
  \<^verbatim>\<open>curl -X POST https://example.com/api\<close> the arguments are \<open>curl\<close>, \<open>-X\<close>,
  \<open>POST\<close> and the URL, and \<^verbatim>\<open>extractURL\<close> returns \<open>POST\<close>, the value of the flag
  \<open>-X\<close>.
\<close>

theorem extractURL_takes_flag_value:
  "parseCurlArgs (cleanCurlCommand ''curl -X POST https://example.com/api'')
     = [''curl'', ''-X'', ''POST'', ''https://example.com/api'']
   \<and> extractURL (parseCurlArgs (cleanCurlCommand ''curl -X POST https://example.com/api''))
     = ''POST''"
  by (simp add: extractURL_def parseCurlArgs_def cleanCurlCommand_def strings_TrimSpace_def
        unicode_IsSpace_def regexp_space_def strings_HasPrefix_def)

subsection \<open>Retries and backoff\<close>

text \<open>
  From iteration \<open>a\<close> the loop runs to some last attempt \<open>k\<close>, and appends to the
  trace the attempts \<open>a\<close> to \<open>k\<close> with a sleep after each but the last.
\<close>

lemma TestRequestWithRetry_loop_trace:
  "a \<le> m \<Longrightarrow>
   \<exists>k. a \<le> k \<and> k \<le> m \<and>
       snd (TestRequestWithRetry_loop T m a e tr) =
         tr @ concat (map (\<lambda>a. [Attempt a, Sleep (waitTime a)]) [a..k - 1]) @ [Attempt k]"
proof (induction T m a e tr rule: TestRequestWithRetry_loop.induct)
  case (1 T m a e tr)
  show ?case
  proof (cases "T a")
    case (Inr response)
    with 1(3) have "snd (TestRequestWithRetry_loop T m a e tr) = tr @ [Attempt a]"
      by (simp add: TestRequestWithRetry_loop.simps [of T m a])
    with 1(3) show ?thesis by (intro exI [of _ a]) simp
  next
    case (Inl err)
    show ?thesis
    proof (cases "a < m")
      case True
      from 1(1) [OF 1(3) Inl True] True obtain k where
        k: "a + 1 \<le> k" "k \<le> m" and
        t: "snd (TestRequestWithRetry_loop T m (a + 1) (Some err)
                   (tr @ [Attempt a, Sleep (waitTime a)])) =
            (tr @ [Attempt a, Sleep (waitTime a)]) @
              concat (map (\<lambda>a. [Attempt a, Sleep (waitTime a)]) [a + 1..k - 1]) @ [Attempt k]"
        by auto
      from k have u: "[a..k - 1] = a # [a + 1..k - 1]"
        by (simp add: upto_rec1)
      from 1(3) Inl True t have
        "snd (TestRequestWithRetry_loop T m a e tr) =
           tr @ concat (map (\<lambda>a. [Attempt a, Sleep (waitTime a)]) [a..k - 1]) @ [Attempt k]"
        by (simp add: TestRequestWithRetry_loop.simps [of T m a] u)
      with k show ?thesis by (intro exI [of _ k]) simp
    next
      case False
      with 1(3) have am: "a = m" by simp
      have "snd (TestRequestWithRetry_loop T m a e tr) = tr @ [Attempt a]"
        using Inl am
        by (simp add: TestRequestWithRetry_loop.simps [of T m m]
              TestRequestWithRetry_loop.simps [of T m "m + 1"])
      with am show ?thesis by (intro exI [of _ a]) simp
    qed
  qed
qed

text \<open>
  Up to attempt 36 the duration does not overflow and is \<open>100 ms * 2 ^ attempt\<close>, in
  nanoseconds.
\<close>

lemma waitTime_of_int:
  "waitTime a = word_of_int (100 * 2 ^ nat a * 1000000)"
  by (simp add: waitTime_def push_bit_eq_mult)

lemma waitTime_exact:
  assumes "0 \<le> a" "a \<le> 36"
  shows "sint (waitTime a) = 100 * 2 ^ nat a * 1000000"
proof -
  have "(2::int) ^ nat a \<le> 2 ^ 36"
    using assms by (intro power_increasing) auto
  then have b: "100 * 2 ^ nat a * 1000000 < (2::int) ^ 63"
    by simp
  have nn: "- (2 ^ 63) \<le> 100 * (2::int) ^ nat a * 1000000"
    by (rule order_trans [of _ 0]) simp_all
  have "sint (waitTime a) = signed_take_bit 63 (100 * 2 ^ nat a * 1000000)"
    unfolding waitTime_of_int by (simp only: signed_of_int) simp
  also have "\<dots> = 100 * 2 ^ nat a * 1000000"
    by (rule signed_take_bit_int_eq_self [OF nn b])
  finally show ?thesis .
qed

lemma waitTime_37: "sint (waitTime 37) < 0"
  by (simp add: waitTime_def)

lemma attempts_backoff_trace:
  "0 \<le> k \<Longrightarrow> int (length (filter is_Attempt (backoff_trace k))) = k + 1"
proof -
  have "length (filter is_Attempt (concat (map (\<lambda>a. [Attempt a, Sleep (waitTime a)]) xs)))
          = length xs" for xs
    by (induction xs) simp_all
  then show "0 \<le> k \<Longrightarrow> ?thesis"
    by (simp add: backoff_trace_def)
qed

text \<open>
  C5 (as the code has it). Let \<open>r\<close> be the number of retries in effect: \<open>maxRetries\<close>
  when it is positive, and the default 3 when it is zero or negative. The request is
  attempted at most \<open>r + 1\<close> times; the attempts are numbered from 0, and between attempt
  \<open>a\<close> and the next one the code sleeps \<open>waitTime a\<close>, which is
  \<open>100 ms * 2 ^ a\<close> for every \<open>a \<le> 36\<close>.
\<close>

theorem TestRequestWithRetry_attempts_and_backoff:
  assumes "MaxRetries config < 2 ^ 63 - 1"
  shows "let r = (if MaxRetries config \<le> 0 then 3 else MaxRetries config);
             trace = snd (TestRequestWithRetry TestRequest req config)
         in int (length (filter is_Attempt trace)) \<le> r + 1
            \<and> (\<exists>k. 0 \<le> k \<and> k \<le> r \<and> trace = backoff_trace k)
            \<and> (\<forall>a. 0 \<le> a \<and> a \<le> 36 \<longrightarrow> sint (waitTime a) = 100 * 2 ^ nat a * 1000000)"
proof -
  define r where "r = (if MaxRetries config \<le> 0 then 3 else MaxRetries config)"
  define trace where "trace = snd (TestRequestWithRetry TestRequest req config)"
  have r0: "0 \<le> r" by (simp add: r_def)
  have t: "trace = snd (TestRequestWithRetry_loop (\<lambda>attempt. TestRequest attempt req config)
                          r 0 None [])"
    by (simp add: trace_def r_def TestRequestWithRetry_def Let_def)
  from TestRequestWithRetry_loop_trace [OF r0, of "\<lambda>attempt. TestRequest attempt req config" None "[]"]
  obtain k where k: "0 \<le> k" "k \<le> r" and tk: "trace = backoff_trace k"
    unfolding t backoff_trace_def by auto
  from attempts_backoff_trace [OF k(1)] k(2) tk
  have "int (length (filter is_Attempt trace)) \<le> r + 1" by simp
  moreover have "\<exists>k. 0 \<le> k \<and> k \<le> r \<and> trace = backoff_trace k"
    using k tk by blast
  moreover have "\<forall>a. 0 \<le> a \<and> a \<le> 36 \<longrightarrow> sint (waitTime a) = 100 * 2 ^ nat a * 1000000"
    by (simp add: waitTime_exact)
  ultimately show ?thesis
    unfolding r_def trace_def Let_def by blast
qed

theorem TestRequestWithRetry_attempts_and_backoff_witness:
  "MaxRetries (example_config 2) < 2 ^ 63 - 1
   \<and> int (length (filter is_Attempt
        (snd (TestRequestWithRetry (\<lambda>attempt req config. Inl (TransportError ''connection refused''))
                example_request (example_config 2))))) \<le> 2 + 1
   \<and> sint (waitTime 1) = 200000000"
proof -
  have h: "MaxRetries (example_config 2) < 2 ^ 63 - 1"
    by (simp add: example_config_def)
  have m: "MaxRetries (example_config 2) = 2"
    by (simp add: example_config_def)
  from TestRequestWithRetry_attempts_and_backoff
         [OF h, of "\<lambda>attempt req config. Inl (TransportError ''connection refused'')"
            example_request]
  show ?thesis
    unfolding Let_def m using h by (simp add: waitTime_def)
qed

text \<open>
  With \<open>maxRetries = 0\<close> and a transport that always fails the request is attempted
  four times, not once.
\<close>

theorem TestRequestWithRetry_zero_retries_counterexample:
  "\<not> int (length (filter is_Attempt
        (snd (TestRequestWithRetry (\<lambda>attempt req config. Inl (TransportError ''connection refused''))
                example_request (example_config 0)))))
      \<le> MaxRetries (example_config 0) + 1"
  by (simp add: TestRequestWithRetry_def example_config_def TestRequestWithRetry_loop.simps)

subsection \<open>The request line of a raw request\<close>

text \<open>
  When \<^verbatim>\<open>Parse\<close> accepts a text, the first line of the text has at least two
  fields, the method is the first field in upper case and the URL is the second.
\<close>

lemma RawRequestParser_Parse_request_line:
  assumes "RawRequestParser_Parse ToUpper ToLower url_Query rawRequest = Inr req"
  shows "let lines = strings_Split (strings_ReplaceAll rawRequest [CHR 0x0D, CHR 0x0A] [CHR 0x0A])
                      [CHR 0x0A];
             parts = strings_Fields (strings_TrimSpace (lines ! 0))
         in 2 \<le> length parts \<and> Method req = ToUpper (parts ! 0) \<and> URL req = parts ! 1
            \<and> Method req \<in> set validMethods"
  using assms
  by (auto simp: RawRequestParser_Parse_def parseRequestLine_def Let_def
           split: if_splits sum.splits prod.splits)

lemma leading_newline_request_eval:
  "DetectInputType leading_newline_request = ''raw''
   \<and> (case RawRequestParser_Parse ToUpper ToLower url_Query leading_newline_request of
         Inl err \<Rightarrow> err = ParseRequestLineFailed InvalidRequestLine | Inr req \<Rightarrow> False)
   \<and> (case UnifiedRequestParser_Parse ToUpper ToLower url_Query leading_newline_request of
         Inl err \<Rightarrow> err = ParseRequestLineFailed InvalidRequestLine | Inr req \<Rightarrow> False)"
  by code_simp

text \<open>
  C8 (the code at the failing input). The text is an empty line followed by the request
  line \<^verbatim>\<open>GET http://a.test/x HTTP/1.1\<close>, a \<^verbatim>\<open>Host\<close> header and the empty line that
  ends the headers. The detector, which trims its input, recognises a raw request;
  \<^verbatim>\<open>Parse\<close> takes the empty first line as the request line and fails, and so does
  the dispatching parser.
\<close>

theorem RawRequestParser_Parse_leading_empty_line:
  "DetectInputType leading_newline_request = ''raw''
   \<and> RawRequestParser_Parse ToUpper ToLower url_Query leading_newline_request
       = Inl (ParseRequestLineFailed InvalidRequestLine)
   \<and> UnifiedRequestParser_Parse ToUpper ToLower url_Query leading_newline_request
       = Inl (ParseRequestLineFailed InvalidRequestLine)"
  using leading_newline_request_eval [of ToUpper ToLower url_Query]
  by (auto split: sum.splits)

subsection \<open>The simplified request\<close>

lemma range_map_invariant:
  assumes "P s" and "\<And>k v s. m k = Some v \<Longrightarrow> P s \<Longrightarrow> P (body k v s)"
  shows "P (range_map order m body s)"
  using assms(1) unfolding range_map_def
proof (induction order arbitrary: s)
  case Nil
  then show ?case by simp
next
  case (Cons k order)
  show ?case
  proof (cases "m k")
    case None
    with Cons show ?thesis by simp
  next
    case (Some v)
    from Cons.prems have "P (body k v s)" by (rule assms(2) [OF Some])
    from Cons.IH [OF this] Some show ?thesis by simp
  qed
qed

text \<open>Copying a map entry by entry gives the entries of the keys visited.\<close>

lemma fold_copy_map:
  "fold (\<lambda>k q. case m k of None \<Rightarrow> q | Some v \<Rightarrow> q(k \<mapsto> v)) order q = q ++ (m |` set order)"
proof (induction order arbitrary: q)
  case Nil
  then show ?case by simp
next
  case (Cons k order)
  show ?case
    by (cases "m k")
       (auto simp: Cons.IH map_add_def restrict_map_def fun_eq_iff split: option.splits)
qed

lemma range_map_copy:
  "range_map order m (\<lambda>key value s. s\<lparr>QueryParams := (QueryParams s)(key \<mapsto> value)\<rparr>) s
     = s\<lparr>QueryParams :=
          fold (\<lambda>k q. case m k of None \<Rightarrow> q | Some v \<Rightarrow> q(k \<mapsto> v)) order (QueryParams s)\<rparr>"
  unfolding range_map_def
proof (induction order arbitrary: s)
  case Nil
  then show ?case by simp
next
  case (Cons k order)
  show ?case
    by (cases "m k") (simp_all add: Cons.IH fun_upd_def)
qed

text \<open>
  C9. Whatever the cumulative results are, and in whatever order the three loops visit
  their maps, the headers of the simplified request are headers of the original request
  with the same values, and so are its cookies; its query parameters, method, URL,
  body and content type are those of the original. The hypothesis says that the loop
  over the query parameters visits each of them.
\<close>

theorem simplified_request_subset:
  assumes "visits queryOrder (QueryParams original)"
  shows "let simplified = generateSimplifiedRequestFromCumulative headerOrder cookieOrder
                            queryOrder original results
         in Headers simplified \<subseteq>\<^sub>m Headers original
            \<and> Cookies simplified \<subseteq>\<^sub>m Cookies original
            \<and> QueryParams simplified = QueryParams original
            \<and> Method simplified = Method original
            \<and> URL simplified = URL original
            \<and> Body simplified = Body original
            \<and> ContentType simplified = ContentType original"
proof -
  let ?s0 = "\<lparr>Method = Method original, URL = URL original, Headers = Map.empty,
              Cookies = Map.empty, Body = Body original, QueryParams = Map.empty,
              ContentType = ContentType original\<rparr>"
  let ?hbody = "\<lambda>headerName result simplified.
                 if Required result then
                   (case Headers original headerName of
                      Some value \<Rightarrow>
                        simplified\<lparr>Headers := (Headers simplified)(headerName \<mapsto> value)\<rparr>
                    | None \<Rightarrow> simplified)
                 else simplified"
  let ?cbody = "\<lambda>cookieName result simplified.
                 if Required result then
                   (case Cookies original cookieName of
                      Some value \<Rightarrow>
                        simplified\<lparr>Cookies := (Cookies simplified)(cookieName \<mapsto> value)\<rparr>
                    | None \<Rightarrow> simplified)
                 else simplified"
  let ?s1 = "range_map headerOrder (tr_Headers results) ?hbody ?s0"
  let ?s2 = "range_map cookieOrder (tr_Cookies results) ?cbody ?s1"
  have "simplified_of original ?s0"
    by (simp add: simplified_of_def)
  then have "simplified_of original ?s1"
    by (rule range_map_invariant)
       (auto simp: simplified_of_def map_le_def split: option.splits)
  then have s2: "simplified_of original ?s2"
    by (rule range_map_invariant)
       (auto simp: simplified_of_def map_le_def split: option.splits)
  from assms have "QueryParams original |` set queryOrder = QueryParams original"
    by (auto simp: visits_def restrict_map_def fun_eq_iff domIff)
  with s2 show ?thesis
    by (simp add: generateSimplifiedRequestFromCumulative_def Let_def range_map_copy
          fold_copy_map simplified_of_def)
qed

theorem simplified_request_subset_witness:
  "visits [''page''] (QueryParams example_request)
   \<and> (let simplified = generateSimplifiedRequestFromCumulative [''Accept'', ''X-Trace''] []
                           [''page''] example_request example_results
      in Headers simplified \<subseteq>\<^sub>m Headers example_request
         \<and> Cookies simplified \<subseteq>\<^sub>m Cookies example_request
         \<and> QueryParams simplified = QueryParams example_request
         \<and> Method simplified = Method example_request
         \<and> URL simplified = URL example_request
         \<and> Body simplified = Body example_request
         \<and> ContentType simplified = ContentType example_request)"
proof -
  have h: "visits [''page''] (QueryParams example_request)"
    by (simp add: visits_def example_request_def)
  from simplified_request_subset [OF h] h show ?thesis
    by blast
qed

subsection \<open>The outgoing request\<close>

lemma cookie_request_eval:
  "case createHTTPRequest ascii_ToLower NewRequest_accepted sanitizeCookieName sanitizeCookieValue
        [''User-Agent'', ''Cookie''] [''s''] cookie_request of
     Inl err \<Rightarrow> False
   | Inr httpReq \<Rightarrow>
       Header httpReq ''User-Agent'' = None
       \<and> written_UserAgent (Header httpReq) = Some ''Go-http-client/1.1''
       \<and> Header_Get ''Cookie'' (Header httpReq)
           = ''s=1; '' @ sanitizeCookieName ''s'' @ ''='' @ sanitizeCookieValue ''1''"
  by code_simp

text \<open>
  C6 (the code at the failing input). The request has the headers \<^verbatim>\<open>User-Agent\<close>,
  empty, and \<^verbatim>\<open>Cookie: s=1\<close>, and the cookie \<open>s = 1\<close>. The request built has no
  \<^verbatim>\<open>User-Agent\<close> entry, so that the transport writes the default
  \<^verbatim>\<open>User-Agent\<close> of the package; and its \<^verbatim>\<open>Cookie\<close> header is not the given
  value \<open>s=1\<close> but that value followed by the cookie again.
\<close>

theorem createHTTPRequest_cookie_and_user_agent:
  "\<exists>httpReq.
     createHTTPRequest ascii_ToLower NewRequest_accepted sanitizeCookieName sanitizeCookieValue
        [''User-Agent'', ''Cookie''] [''s''] cookie_request = Inr httpReq
     \<and> Header httpReq ''User-Agent'' = None
     \<and> written_UserAgent (Header httpReq) = Some ''Go-http-client/1.1''
     \<and> Header_Get ''Cookie'' (Header httpReq)
         = ''s=1; '' @ sanitizeCookieName ''s'' @ ''='' @ sanitizeCookieValue ''1''"
  using cookie_request_eval [of sanitizeCookieName sanitizeCookieValue]
  by (auto split: sum.splits)

subsection \<open>Static validation of expressions\<close>

lemma allowed_accepted:
  "allowed_expr e \<Longrightarrow> validateASTNode e = None"
  "allowed_exprs es \<Longrightarrow> validateArgs es = None"
proof (induction e and es rule: validateASTNode_validateArgs.induct)
  case (3 fn args)
  then show ?case by (cases fn) (auto split: if_splits)
qed (auto split: option.splits if_splits)

lemma accepted_allowed:
  "named_call_targets e \<Longrightarrow> validateASTNode e = None \<Longrightarrow> allowed_expr e"
  "named_call_targets_list es \<Longrightarrow> validateArgs es = None \<Longrightarrow> allowed_exprs es"
proof (induction e and es rule: validateASTNode_validateArgs.induct)
  case (3 fn args)
  then show ?case by (cases fn) (auto split: if_splits)
qed (auto split: option.splits if_splits)

text \<open>
  A call whose called expression is neither an identifier nor a selector passes the
  check whatever is called: \<^verbatim>\<open>(system)(1)\<close>.
\<close>

lemma validateASTNode_unexamined_call_target:
  "validateASTNode (CallExpr (ParenExpr (Ident ''system'')) [BasicLit ''1'']) = None
   \<and> \<not> allowed_expr (CallExpr (ParenExpr (Ident ''system'')) [BasicLit ''1''])"
  by simp

lemma ExpressionManager_ValidateExpression_iff:
  "ExpressionManager_ValidateExpression expression = None
     \<longleftrightarrow> expression \<noteq> [] \<and> strings_Contains expression ''response''"
  by (simp add: ExpressionManager_ValidateExpression_def)

text \<open>
  C1 (as the code has it). For an expression in which every called expression is an
  identifier or a selector, the validator's walk accepts it exactly when it is built
  from the allowed set; when the parsed expression contains anything else, validation
  fails and evaluation returns the validation error, without evaluating. The
  validation offered by the service is another one: it accepts exactly the non-empty
  strings that contain \<open>response\<close>.
\<close>

theorem validation_rejects_disallowed:
  "(named_call_targets e \<longrightarrow> (validateASTNode e = None \<longleftrightarrow> allowed_expr e))
   \<and> (ParseExpr expression = Inr e \<and> named_call_targets e \<and> \<not> allowed_expr e \<longrightarrow>
        (\<exists>err. ValidateExpression ParseExpr expression = Some err
               \<and> EvaluateExpression ParseExpr json_Unmarshal expression response = Inl err))
   \<and> (RequestService_ValidateExpression expression = None
        \<longleftrightarrow> expression \<noteq> [] \<and> strings_Contains expression ''response'')"
proof -
  have a: "named_call_targets e \<longrightarrow> (validateASTNode e = None \<longleftrightarrow> allowed_expr e)"
    using allowed_accepted(1) accepted_allowed(1) by blast
  have b: "\<exists>err. ValidateExpression ParseExpr expression = Some err
               \<and> EvaluateExpression ParseExpr json_Unmarshal expression response = Inl err"
    if p: "ParseExpr expression = Inr e" and n: "named_call_targets e" and d: "\<not> allowed_expr e"
  proof -
    from a n d obtain err where v: "validateASTNode e = Some err" by auto
    have "ValidateExpression ParseExpr expression \<noteq> None"
      using p v by (simp add: ValidateExpression_def)
    then obtain err' where "ValidateExpression ParseExpr expression = Some err'" by blast
    then show ?thesis by (auto simp: EvaluateExpression_def)
  qed
  have c: "RequestService_ValidateExpression expression = None
        \<longleftrightarrow> expression \<noteq> [] \<and> strings_Contains expression ''response''"
    by (simp add: RequestService_ValidateExpression_def ExpressionManager_ValidateExpression_iff)
  from a b c show ?thesis by blast
qed

theorem validation_rejects_disallowed_witness:
  "named_call_targets (CallExpr (Ident ''system'') [Ident ''response''])
   \<and> \<not> allowed_expr (CallExpr (Ident ''system'') [Ident ''response''])
   \<and> validateASTNode (CallExpr (Ident ''system'') [Ident ''response'']) \<noteq> None
   \<and> parsed_system_call ''system(response)'' = Inr (CallExpr (Ident ''system'') [Ident ''response''])
   \<and> (\<exists>err. ValidateExpression parsed_system_call ''system(response)'' = Some err
             \<and> EvaluateExpression parsed_system_call (\<lambda>s. None :: unit val option)
                  ''system(response)'' (example_response 200 ''ok'') = Inl err)
   \<and> named_call_targets (BinaryExpr (SelectorExpr (Ident ''response'') ''status_code'') ''==''
                           (BasicLit ''404''))
   \<and> validateASTNode (BinaryExpr (SelectorExpr (Ident ''response'') ''status_code'') ''==''
                        (BasicLit ''404'')) = None"
proof -
  let ?bad = "CallExpr (Ident ''system'') [Ident ''response'']"
  let ?good = "BinaryExpr (SelectorExpr (Ident ''response'') ''status_code'') ''==''
                 (BasicLit ''404'')"
  have n: "named_call_targets ?bad" by simp
  have d: "\<not> allowed_expr ?bad" by (simp add: allowedFunctions_def)
  have p: "parsed_system_call ''system(response)'' = Inr ?bad"
    by (simp add: parsed_system_call_def)
  have n': "named_call_targets ?good" by simp
  have g: "allowed_expr ?good"
    by (simp add: isAllowedResponseField_def allowedOperators_def)
  note t = validation_rejects_disallowed
             [of ?bad parsed_system_call "''system(response)''" "\<lambda>s. None :: unit val option"
                 "example_response 200 ''ok''"]
  note t' = validation_rejects_disallowed
             [of ?good parsed_system_call "''system(response)''" "\<lambda>s. None :: unit val option"
                 "example_response 200 ''ok''"]
  from t n d have 1: "validateASTNode ?bad \<noteq> None" by blast
  from t n d p have 2: "\<exists>err. ValidateExpression parsed_system_call ''system(response)'' = Some err
             \<and> EvaluateExpression parsed_system_call (\<lambda>s. None :: unit val option)
                  ''system(response)'' (example_response 200 ''ok'') = Inl err"
    by blast
  from t' n' g have 3: "validateASTNode ?good = None" by blast
  from n d 1 p 2 n' 3 show ?thesis by blast
qed

text \<open>
  The service accepts \<^verbatim>\<open>system(response)\<close>, the call of a function outside the
  allowed set.
\<close>

theorem service_validation_counterexample:
  "RequestService_ValidateExpression ''system(response)'' = None
   \<and> \<not> allowed_expr (CallExpr (Ident ''system'') [Ident ''response''])"
  by (simp add: RequestService_ValidateExpression_def ExpressionManager_ValidateExpression_def
        strings_HasPrefix_def allowedFunctions_def)

subsection \<open>The order of the validation modes\<close>

text \<open>
  C2. With \<open>useCustomExpr\<close> set and a non-empty expression the result is that of
  evaluating the expression, whatever the status code. Otherwise a status code outside
  \<open>[200, 300)\<close> gives \<open>false\<close>, and a status code inside it passes on to text
  matching, to the length range or to the configuration error.
\<close>

theorem EvaluateConfig_modes:
  "(UseCustomExpr config \<and> Expression config \<noteq> [] \<longrightarrow>
      EvaluateConfig ParseExpr json_Unmarshal ToLower config response
        = EvaluateExpression ParseExpr json_Unmarshal (Expression config) response)
   \<and> (\<not> (UseCustomExpr config \<and> Expression config \<noteq> []) \<longrightarrow>
        (StatusCode response < 200 \<or> 300 \<le> StatusCode response \<longrightarrow>
           EvaluateConfig ParseExpr json_Unmarshal ToLower config response = Inr False)
      \<and> (200 \<le> StatusCode response \<and> StatusCode response < 300 \<longrightarrow>
           EvaluateConfig ParseExpr json_Unmarshal ToLower config response
             = (if tm_Enabled (TextMatching config)
                then Inr (checkTextMatching ToLower (TextMatching config) (resp_Body response))
                else if lr_Enabled (LengthRange config)
                then Inr (checkLengthRange (LengthRange config) (resp_Body response))
                else Inl NoValidationRule)))"
  by (auto simp: EvaluateConfig_def)

text \<open>
  The expression \<^verbatim>\<open>response.status_code == 404\<close> evaluates to \<open>true\<close> on a response
  with status 404.
\<close>

lemma EvaluateExpression_status_404:
  "EvaluateExpression parsed_status_is_404 json_Unmarshal ''response.status_code == 404''
     (example_response 404 ''not found'') = Inr True"
proof -
  have r: "strings_ReplaceAll ''response.status_code == 404'' ''response.status_code''
             (strconv_Itoa 404) = ''404 == 404''"
    by code_simp
  have c: "strings_Contains ''404 == 404'' ''==''"
    by code_simp
  have s: "strings_Split ''404 == 404'' ''=='' = [''404 '', '' 404'']"
    by code_simp
  have a: "strconv_Atoi (strings_TrimSpace (strings_TrimSpace ''404 '')) = Some 404"
          "strconv_Atoi (strings_TrimSpace (strings_TrimSpace '' 404'')) = Some 404"
    by code_simp+
  have v: "ValidateExpression parsed_status_is_404 ''response.status_code == 404'' = None"
    by code_simp
  have m: "createResponseMap json_Unmarshal (example_response 404 ''not found'') ''status_code''
             = Some (VInt 404)"
    by (simp add: createResponseMap_def example_response_def Let_def split: option.splits)
  show ?thesis
    by (simp add: EvaluateExpression_def v evaluateSimpleExpression_def m r c s parseValue_def a
          Let_def del: strings_Contains.simps)
qed

theorem EvaluateConfig_modes_witness:
  "UseCustomExpr custom_config \<and> Expression custom_config \<noteq> []
   \<and> EvaluateConfig parsed_status_is_404 (\<lambda>s. None :: unit val option) ascii_ToLower
        custom_config (example_response 404 ''not found'') = Inr True
   \<and> \<not> UseCustomExpr (example_config 3)
   \<and> EvaluateConfig parsed_status_is_404 (\<lambda>s. None :: unit val option) ascii_ToLower
        (example_config 3) (example_response 199 ''ok'') = Inr False
   \<and> EvaluateConfig parsed_status_is_404 (\<lambda>s. None :: unit val option) ascii_ToLower
        (example_config 3) (example_response 300 ''ok'') = Inr False
   \<and> EvaluateConfig parsed_status_is_404 (\<lambda>s. None :: unit val option) ascii_ToLower
        (example_config 3) (example_response 200 ''ok'') = Inr True
   \<and> EvaluateConfig parsed_status_is_404 (\<lambda>s. None :: unit val option) ascii_ToLower
        (example_config 3) (example_response 299 ''ok'') = Inr True"
proof -
  let ?P = parsed_status_is_404 and ?J = "\<lambda>s. None :: unit val option"
  have cu: "UseCustomExpr custom_config" "Expression custom_config \<noteq> []"
           "Expression custom_config = ''response.status_code == 404''"
    by (simp_all add: custom_config_def example_config_def)
  have nc: "\<not> UseCustomExpr (example_config 3)"
    by (simp add: example_config_def)
  have st: "StatusCode (example_response n b) = n" for n b
    by (simp add: example_response_def)
  have lr: "\<not> tm_Enabled (TextMatching (example_config 3))"
           "lr_Enabled (LengthRange (example_config 3))"
           "checkLengthRange (LengthRange (example_config 3)) (resp_Body (example_response n ''ok''))"
    for n
    by (simp_all add: example_config_def example_response_def checkLengthRange_def)
  from EvaluateConfig_modes [of custom_config ?P ?J ascii_ToLower "example_response 404 ''not found''"]
       cu EvaluateExpression_status_404 [of ?J]
  have 1: "EvaluateConfig ?P ?J ascii_ToLower custom_config (example_response 404 ''not found'')
             = Inr True"
    by simp
  from EvaluateConfig_modes [of "example_config 3" ?P ?J ascii_ToLower "example_response 199 ''ok''"]
       nc st
  have 2: "EvaluateConfig ?P ?J ascii_ToLower (example_config 3) (example_response 199 ''ok'')
             = Inr False"
    by simp
  from EvaluateConfig_modes [of "example_config 3" ?P ?J ascii_ToLower "example_response 300 ''ok''"]
       nc st
  have 3: "EvaluateConfig ?P ?J ascii_ToLower (example_config 3) (example_response 300 ''ok'')
             = Inr False"
    by simp
  from EvaluateConfig_modes [of "example_config 3" ?P ?J ascii_ToLower "example_response 200 ''ok''"]
       nc st lr
  have 4: "EvaluateConfig ?P ?J ascii_ToLower (example_config 3) (example_response 200 ''ok'')
             = Inr True"
    by simp
  from EvaluateConfig_modes [of "example_config 3" ?P ?J ascii_ToLower "example_response 299 ''ok''"]
       nc st lr
  have 5: "EvaluateConfig ?P ?J ascii_ToLower (example_config 3) (example_response 299 ''ok'')
             = Inr True"
    by simp
  from cu nc 1 2 3 4 5 show ?thesis by blast
qed

end
